theory Spec2Isabelle
  imports Main "HOL-Library.Char_ord" "HOL-Library.List_Lexorder" "HOL-Library.Product_Lexorder"
begin

section \<open>Data model of the store package\<close>

text \<open>
  Go's \<^verbatim>\<open>time\<close> package is not part of the repository. The store and the HTTP layer
  use four of its operations: the zero value \<^verbatim>\<open>time.Time{}\<close>, \<^verbatim>\<open>Time.IsZero\<close>,
  \<^verbatim>\<open>Time.Format(time.RFC3339)\<close> and \<^verbatim>\<open>time.Parse(time.RFC3339, s)\<close> (whose error is
  the value \<open>None\<close>). They are a parameter of every definition that calls them; the type
  of timestamps is the type variable \<open>'t\<close>.
\<close>

record 't timelib =
  time_zero :: "'t"
  time_IsZero :: "'t \<Rightarrow> bool"
  time_Format :: "'t \<Rightarrow> string"
  time_Parse :: "string \<Rightarrow> 't option"

text \<open>\<^verbatim>\<open>type Target struct\<close>, \<^verbatim>\<open>type CheckResult struct\<close>, \<^verbatim>\<open>type Cursor struct\<close>.
  The pointer fields \<^verbatim>\<open>*int\<close> and \<^verbatim>\<open>*string\<close> are options (\<open>None\<close> is nil).\<close>

record 't Target =
  ID :: string
  URL :: string
  Host :: string
  CreatedAt :: "'t"

record 't CheckResult =
  ResultID :: int
  TargetID :: string
  CheckedAt :: "'t"
  StatusCode :: "int option"
  LatencyMs :: int
  Error :: "string option"

record 't Cursor =
  CursorCreatedAt :: "'t"
  CursorID :: string

text \<open>The tables of \<^verbatim>\<open>migrations/002_create_tables.sql\<close>: \<^verbatim>\<open>created_at\<close> and
  \<^verbatim>\<open>checked_at\<close> are TEXT columns, \<^verbatim>\<open>status_code\<close> and \<^verbatim>\<open>error\<close> are nullable,
  \<^verbatim>\<open>check_results.id\<close> is INTEGER PRIMARY KEY AUTOINCREMENT.\<close>

record target_row =
  row_id :: string
  row_url :: string
  row_host :: string
  row_created_at :: string

record result_row =
  res_id :: int
  res_target_id :: string
  res_checked_at :: string
  res_status_code :: "int option"
  res_latency_ms :: int
  res_error :: "string option"

record database =
  targets :: "target_row list"
  check_results :: "result_row list"

text \<open>What the database driver answers is outside the program: a call of
  \<^verbatim>\<open>QueryRowContext\<close>/\<^verbatim>\<open>QueryContext\<close> may fail with an error other than
  \<^verbatim>\<open>sql.ErrNoRows\<close>, \<^verbatim>\<open>ExecContext\<close> may fail, and \<^verbatim>\<open>rows.Scan\<close> may fail. The
  driver's behaviour at one call is this record; \<open>None\<close> is "no error".\<close>

record db_faults =
  query_err :: "string option"
  exec_err :: "string option"
  scan_err :: "string option"

definition formatTime :: "'t timelib \<Rightarrow> 't \<Rightarrow> string" where
  "formatTime L t = time_Format L t"

text \<open>\<^verbatim>\<open>t, _ := time.Parse(time.RFC3339, s)\<close>: the error is dropped, and on an error
  \<^verbatim>\<open>time.Parse\<close> returns the zero time.\<close>

definition parseTime :: "'t timelib \<Rightarrow> string \<Rightarrow> 't" where
  "parseTime L s = (case time_Parse L s of Some t \<Rightarrow> t | None \<Rightarrow> time_zero L)"

text \<open>\<^verbatim>\<open>Scan(&t.ID, &t.URL, &t.Host, &created)\<close> followed by
  \<^verbatim>\<open>t.CreatedAt = parseTime(created)\<close>.\<close>

definition scanTarget :: "'t timelib \<Rightarrow> target_row \<Rightarrow> 't Target" where
  "scanTarget L r =
     \<lparr>ID = row_id r, URL = row_url r, Host = row_host r,
      CreatedAt = parseTime L (row_created_at r)\<rparr>"

text \<open>\<^verbatim>\<open>qInsertTarget\<close> on a table whose \<^verbatim>\<open>id\<close> is the primary key and whose
  \<^verbatim>\<open>url\<close> is UNIQUE: the insert fails when either is taken.\<close>

definition insert_target :: "database \<Rightarrow> target_row \<Rightarrow> string + database" where
  "insert_target db r =
     (if list_ex (\<lambda>q. row_id q = row_id r \<or> row_url q = row_url r) (targets db)
      then Inl ''constraint failed''
      else Inr (db\<lparr>targets := targets db @ [r]\<rparr>))"

text \<open>\<^verbatim>\<open>UpsertTargetByURL\<close>. The arguments \<open>uuid\<close> and \<open>now\<close> are what
  \<^verbatim>\<open>generateID()\<close> and \<^verbatim>\<open>time.Now()\<close> return. The result is the returned triple
  (an error, or the target and \<^verbatim>\<open>created\<close>) and the database after the call.\<close>

definition UpsertTargetByURL ::
  "'t timelib \<Rightarrow> database \<Rightarrow> db_faults \<Rightarrow> string \<Rightarrow> 't \<Rightarrow> string \<Rightarrow> string
     \<Rightarrow> (string + 't Target \<times> bool) \<times> database" where
  "UpsertTargetByURL L db flt uuid now canonicalURL host =
     (case query_err flt of
        Some e \<Rightarrow> (Inl (''query target: '' @ e), db)
      | None \<Rightarrow>
         (case find (\<lambda>r. row_url r = canonicalURL) (targets db) of
            Some r \<Rightarrow> (Inr (scanTarget L r, False), db)
          | None \<Rightarrow>
             (let t = \<lparr>ID = ''t_'' @ uuid, URL = canonicalURL, Host = host, CreatedAt = now\<rparr>
              in case exec_err flt of
                   Some e \<Rightarrow> (Inl (''insert target: '' @ e), db)
                 | None \<Rightarrow>
                    (case insert_target db
                            \<lparr>row_id = ID t, row_url = URL t, row_host = Host t,
                             row_created_at = formatTime L (CreatedAt t)\<rparr> of
                       Inl e \<Rightarrow> (Inl (''insert target: '' @ e), db)
                     | Inr db' \<Rightarrow> (Inr (t, True), db')))))"

text \<open>\<^verbatim>\<open>LIMIT ?\<close> in SQLite: a negative limit is no limit.\<close>

definition sql_limit :: "int \<Rightarrow> 'a list \<Rightarrow> 'a list" where
  "sql_limit n xs = (if n < 0 then xs else take (nat n) xs)"

text \<open>\<^verbatim>\<open>ORDER BY created_at, id\<close>: both columns are TEXT, compared byte by byte
  (the order of \<open>string\<close> in \<open>List_Lexorder\<close> over \<open>Char_ord\<close>). Two rows of the table
  never have the same key: \<^verbatim>\<open>id\<close> is the primary key.\<close>

definition order_key :: "target_row \<Rightarrow> string \<times> string" where
  "order_key r = (row_created_at r, row_id r)"

text \<open>\<^verbatim>\<open>GetTargets\<close>: the query is built from \<^verbatim>\<open>qSelectTargetsBase\<close>, the two
  optional conditions, the ordering and the limit; then the rows are scanned. An empty
  result is \<^verbatim>\<open>nil, nil, nil\<close>.\<close>

definition select_targets ::
  "'t timelib \<Rightarrow> database \<Rightarrow> string \<Rightarrow> 't \<Rightarrow> string \<Rightarrow> int \<Rightarrow> target_row list" where
  "select_targets L db hostFilter afterCreatedAt afterID limit =
     (let rows0 = targets db;
          rows1 = (if hostFilter \<noteq> [] then filter (\<lambda>r. row_host r = hostFilter) rows0
                   else rows0);
          rows2 = (if \<not> time_IsZero L afterCreatedAt
                   then (let ts = formatTime L afterCreatedAt
                         in filter (\<lambda>r. row_created_at r > ts
                                       \<or> (row_created_at r = ts \<and> row_id r > afterID)) rows1)
                   else rows1)
      in sql_limit limit (sort_key order_key rows2))"

definition GetTargets ::
  "'t timelib \<Rightarrow> database \<Rightarrow> db_faults \<Rightarrow> string \<Rightarrow> 't \<Rightarrow> string \<Rightarrow> int
     \<Rightarrow> string + ('t Target list \<times> 't Cursor option)" where
  "GetTargets L db flt hostFilter afterCreatedAt afterID limit =
     (case query_err flt of
        Some e \<Rightarrow> Inl (''get targets: '' @ e)
      | None \<Rightarrow>
         (let rows = select_targets L db hostFilter afterCreatedAt afterID limit
          in if rows = [] then Inr ([], None)
             else (case scan_err flt of
                     Some e \<Rightarrow> Inl e
                   | None \<Rightarrow>
                      (let ts = map (scanTarget L) rows; l = last ts
                       in Inr (ts, Some \<lparr>CursorCreatedAt = CreatedAt l, CursorID = ID l\<rparr>)))))"

text \<open>\<^verbatim>\<open>InsertCheckResult\<close>: one row appended to \<^verbatim>\<open>check_results\<close>, its id the next
  of the AUTOINCREMENT sequence (no row is ever deleted). The result is the returned
  error (\<open>None\<close> is nil) and the database after the call.\<close>

definition InsertCheckResult ::
  "'t timelib \<Rightarrow> database \<Rightarrow> db_faults \<Rightarrow> 't CheckResult \<Rightarrow> string option \<times> database" where
  "InsertCheckResult L db flt r =
     (case exec_err flt of
        Some e \<Rightarrow> (Some (''insert result: '' @ e), db)
      | None \<Rightarrow>
         (None,
          db\<lparr>check_results := check_results db @
               [\<lparr>res_id = int (length (check_results db)) + 1,
                 res_target_id = TargetID r,
                 res_checked_at = formatTime L (CheckedAt r),
                 res_status_code = StatusCode r,
                 res_latency_ms = LatencyMs r,
                 res_error = Error r\<rparr>]\<rparr>))"

section \<open>The probe (internal/checker, performCheck)\<close>

text \<open>What \<^verbatim>\<open>client.Get(target.URL)\<close> returns: a non-nil error (with its message), or a
  response with its status code. \<^verbatim>\<open>net/http\<close> returns a nil error for every completed
  response, whatever its status class.\<close>

datatype get_outcome = GetFailed string | GetResponse int

text \<open>\<^verbatim>\<open>performCheck\<close>: \<open>latency\<close> is \<^verbatim>\<open>time.Since(start).Milliseconds()\<close> and \<open>now\<close> is
  the \<^verbatim>\<open>time.Now()\<close> stored as \<^verbatim>\<open>CheckedAt\<close>.\<close>

definition performCheck :: "'t Target \<Rightarrow> get_outcome \<Rightarrow> int \<Rightarrow> 't \<Rightarrow> 't CheckResult" where
  "performCheck target outcome latency now =
     (let result = \<lparr>ResultID = 0, TargetID = ID target, CheckedAt = now,
                     StatusCode = None, LatencyMs = latency, Error = None\<rparr>
      in case outcome of
           GetFailed errMsg \<Rightarrow> result\<lparr>Error := Some errMsg\<rparr>
         | GetResponse code \<Rightarrow> result\<lparr>StatusCode := Some code\<rparr>)"

section \<open>The checker (internal/checker)\<close>

text \<open>
  The checker is concurrent: goroutines running \<^verbatim>\<open>scheduler\<close>, goroutines running
  \<^verbatim>\<open>checkTarget\<close>, and the callers of \<^verbatim>\<open>Start\<close> and \<^verbatim>\<open>Shutdown\<close>. It is modelled as
  an interleaving of atomic steps on one shared state. Each goroutine is at a control
  point of its function; a step moves one goroutine to its next control point and does
  what the statements between the two do. A buffered channel of \<^verbatim>\<open>struct{}\<close> is the
  number of elements it holds: a send needs that number below the capacity, a receive
  needs it positive. The context \<^verbatim>\<open>c.ctx\<close> is the flag \<open>cancelled\<close> (its \<^verbatim>\<open>Done()\<close>
  channel is closed). Time is not modelled: a tick of the ticker and the expiry of the
  grace timer are steps that may happen at any moment.
\<close>

text \<open>Control points of \<^verbatim>\<open>scheduler\<close> (with \<^verbatim>\<open>scheduleChecks\<close> inlined).\<close>

datatype 't sched =
    SchedInit \<comment> \<open>started: \<^verbatim>\<open>defer c.wg.Done()\<close>, \<^verbatim>\<open>time.NewTicker\<close> next\<close>
  | SchedSelect \<comment> \<open>at the \<^verbatim>\<open>select\<close> of the \<^verbatim>\<open>for\<close> loop of \<^verbatim>\<open>scheduler\<close>\<close>
  | PassSelect "'t Target list"
      \<comment> \<open>in \<^verbatim>\<open>scheduleChecks\<close>, at the \<^verbatim>\<open>select\<close> for the head of the targets left\<close>
  | PassAdd "'t Target" "'t Target list"
      \<comment> \<open>the send on \<^verbatim>\<open>c.workers\<close> is done, \<^verbatim>\<open>c.wg.Add(1)\<close> is next\<close>
  | PassGo "'t Target" "'t Target list" \<comment> \<open>\<^verbatim>\<open>go c.checkTarget(target)\<close> is next\<close>
  | SchedExited \<comment> \<open>returned, the deferred \<^verbatim>\<open>c.wg.Done()\<close> has run\<close>

text \<open>Control points of \<^verbatim>\<open>checkTarget\<close> (with \<^verbatim>\<open>acquireHostSemaphore\<close> and
  \<^verbatim>\<open>releaseHostSemaphore\<close> inlined). The three deferred calls run in reverse order:
  \<^verbatim>\<open>releaseHostSemaphore\<close> (when it was registered), then \<^verbatim>\<open><-c.workers\<close>, then
  \<^verbatim>\<open>c.wg.Done()\<close>.\<close>

datatype 't task_pc =
    AcquireHostLock \<comment> \<open>started; looks the host's semaphore up under \<^verbatim>\<open>hostMutex\<close> next\<close>
  | AcquireHostSelect \<comment> \<open>at the \<^verbatim>\<open>select\<close> of \<^verbatim>\<open>acquireHostSemaphore\<close>\<close>
  | Probing \<comment> \<open>host slot held; \<^verbatim>\<open>performCheck\<close> next\<close>
  | Saving "'t CheckResult" \<comment> \<open>\<^verbatim>\<open>InsertCheckResult\<close> next\<close>
  | ReleaseHost \<comment> \<open>deferred \<^verbatim>\<open>releaseHostSemaphore\<close> next\<close>
  | ReleaseGlobal \<comment> \<open>deferred \<^verbatim>\<open><-c.workers\<close> next\<close>
  | WgDone \<comment> \<open>deferred \<^verbatim>\<open>c.wg.Done()\<close> next\<close>
  | Exited

datatype 't task = Task (task_target: "'t Target") (task_pc: "'t task_pc")

text \<open>One call of \<^verbatim>\<open>Shutdown\<close>: whether its \<^verbatim>\<open>done\<close> channel is closed, whether its
  \<^verbatim>\<open>time.After(c.shutdownGrace)\<close> timer has fired, whether the call has returned.\<close>

record shut =
  sh_done :: bool
  sh_timer :: bool
  sh_returned :: bool

text \<open>\<^verbatim>\<open>type Checker struct\<close>, with the goroutines and the output it has produced.
  \<open>workers\<close> is \<^verbatim>\<open>len(c.workers)\<close>; \<open>hostSemaphores h\<close> is the length of the channel
  stored for \<open>h\<close>; \<open>store\<close> is the database behind \<^verbatim>\<open>c.store\<close>.\<close>

record 't checker =
  store :: database
  checkInterval :: int
  maxConcurrency :: int
  httpTimeout :: int
  shutdownGrace :: int
  workers :: nat
  hostSemaphores :: "string \<Rightarrow> nat option"
  cancelled :: bool
  wg :: int
  scheds :: "'t sched list"
  tasks :: "'t task list"
  shutdowns :: "shut list"
  stdout :: "string list"
  panicked :: bool

text \<open>\<^verbatim>\<open>NewChecker\<close>. \<^verbatim>\<open>make(chan struct{}, maxConcurrency)\<close> panics when the size is
  negative.\<close>

definition NewChecker :: "database \<Rightarrow> int \<Rightarrow> int \<Rightarrow> int \<Rightarrow> int \<Rightarrow> 't checker option" where
  "NewChecker st interval timeout grace maxConc =
     (if maxConc < 0 then None
      else Some \<lparr>store = st, checkInterval = interval, maxConcurrency = maxConc,
                 httpTimeout = timeout, shutdownGrace = grace, workers = 0,
                 hostSemaphores = (\<lambda>h. None), cancelled = False, wg = 0, scheds = [],
                 tasks = [], shutdowns = [], stdout = [], panicked = False\<rparr>)"

text \<open>\<^verbatim>\<open>Start\<close>: \<^verbatim>\<open>c.wg.Add(1); go c.scheduler()\<close>.\<close>

definition Start :: "'t checker \<Rightarrow> 't checker" where
  "Start c = c\<lparr>wg := wg c + 1, scheds := scheds c @ [SchedInit]\<rparr>"

text \<open>\<^verbatim>\<open>Shutdown\<close> up to its \<^verbatim>\<open>select\<close>: \<^verbatim>\<open>c.cancel()\<close>, a fresh \<^verbatim>\<open>done\<close> channel, the
  goroutine that waits for \<^verbatim>\<open>c.wg\<close> and closes \<^verbatim>\<open>done\<close>, and the grace timer.\<close>

definition Shutdown_call :: "'t checker \<Rightarrow> 't checker" where
  "Shutdown_call c =
     c\<lparr>cancelled := True,
       shutdowns := shutdowns c @ [\<lparr>sh_done = False, sh_timer = False, sh_returned = False\<rparr>]\<rparr>"

text \<open>The \<^verbatim>\<open>select\<close> that ends \<^verbatim>\<open>Shutdown\<close>: the case taken, and for each case the value
  returned to the caller and the line printed with \<^verbatim>\<open>fmt.Println\<close>. \<^verbatim>\<open>Shutdown\<close> is
  declared \<^verbatim>\<open>func (c *Checker) Shutdown()\<close>: it has no result, so the value returned
  has type \<open>unit\<close>.\<close>

datatype select_case = DoneClosed | GraceElapsed

definition Shutdown_select :: "select_case \<Rightarrow> unit \<times> string" where
  "Shutdown_select sc =
     (case sc of
        DoneClosed \<Rightarrow> ((), ''checker shut down gracefully'')
      | GraceElapsed \<Rightarrow> ((), ''shutdown timed out, forcing exit''))"

definition select_ready :: "select_case \<Rightarrow> shut \<Rightarrow> bool" where
  "select_ready sc sh = (case sc of DoneClosed \<Rightarrow> sh_done sh | GraceElapsed \<Rightarrow> sh_timer sh)"

text \<open>\<^verbatim>\<open>waitForShutdown\<close> of \<^verbatim>\<open>cmd/main.go\<close>, the caller of \<^verbatim>\<open>Shutdown\<close>, after the
  signal has arrived: the lines it writes with \<^verbatim>\<open>log.Println\<close>.\<close>

definition waitForShutdown :: "select_case \<Rightarrow> string list" where
  "waitForShutdown sc =
     (let u = fst (Shutdown_select sc)
      in [''Shutdown signal received...'', ''Shutdown complete''])"

text \<open>The first statement of \<^verbatim>\<open>scheduleChecks\<close>:
  \<^verbatim>\<open>c.store.GetTargets(c.ctx, "", time.Time{}, "", 1000)\<close>.\<close>

definition scheduleChecks_fetch ::
  "'t timelib \<Rightarrow> database \<Rightarrow> db_faults \<Rightarrow> string + ('t Target list \<times> 't Cursor option)" where
  "scheduleChecks_fetch L db flt = GetTargets L db flt [] (time_zero L) [] 1000"

definition print_line :: "string \<Rightarrow> 't checker \<Rightarrow> 't checker" where
  "print_line l s = s\<lparr>stdout := stdout s @ [l]\<rparr>"

text \<open>The per-host capacity: \<^verbatim>\<open>make(chan struct{}, 2)\<close> in \<^verbatim>\<open>acquireHostSemaphore\<close>.\<close>

definition hostCap :: nat where
  "hostCap = 2"

text \<open>The steps. A premise \<open>scheds s = as @ p # bs\<close> picks one scheduler goroutine (the
  one at position \<open>length as\<close>) and its control point \<open>p\<close>; likewise for \<open>tasks s\<close> and
  the \<^verbatim>\<open>checkTarget\<close> goroutines and for \<open>shutdowns s\<close> and the calls of \<^verbatim>\<open>Shutdown\<close>.
  What the outside world decides at a step (the driver's answer \<open>flt\<close>, the outcome of
  the GET, the clock) is any value.\<close>

inductive goroutine_step :: "'t timelib \<Rightarrow> 't checker \<Rightarrow> 't checker \<Rightarrow> bool" for L where
  call_Start: \<comment> \<open>some goroutine calls \<^verbatim>\<open>c.Start()\<close>\<close>
    "goroutine_step L s (Start s)"
| call_Shutdown: \<comment> \<open>some goroutine calls \<^verbatim>\<open>c.Shutdown()\<close>\<close>
    "goroutine_step L s (Shutdown_call s)"
| call_Upsert: \<comment> \<open>the HTTP layer registers a URL in the same store\<close>
    "UpsertTargetByURL L (store s) flt uuid now url host = (res, db')
     \<Longrightarrow> goroutine_step L s (s\<lparr>store := db'\<rparr>)"
| sched_init: \<comment> \<open>\<^verbatim>\<open>time.NewTicker(c.checkInterval)\<close>\<close>
    "scheds s = as @ SchedInit # bs \<Longrightarrow> 0 < checkInterval s
     \<Longrightarrow> goroutine_step L s (s\<lparr>scheds := as @ SchedSelect # bs\<rparr>)"
| sched_init_panic: \<comment> \<open>\<^verbatim>\<open>time.NewTicker\<close> panics on a non-positive interval\<close>
    "scheds s = as @ SchedInit # bs \<Longrightarrow> checkInterval s \<le> 0
     \<Longrightarrow> goroutine_step L s (s\<lparr>panicked := True\<rparr>)"
| sched_cancelled: \<comment> \<open>\<^verbatim>\<open>case <-c.ctx.Done(): return\<close>, then the deferred \<^verbatim>\<open>c.wg.Done()\<close>\<close>
    "scheds s = as @ SchedSelect # bs \<Longrightarrow> cancelled s
     \<Longrightarrow> goroutine_step L s (s\<lparr>scheds := as @ SchedExited # bs, wg := wg s - 1\<rparr>)"
| sched_tick_failed: \<comment> \<open>\<^verbatim>\<open>case <-ticker.C\<close>, and \<^verbatim>\<open>GetTargets\<close> returns an error\<close>
    "scheds s = as @ SchedSelect # bs
     \<Longrightarrow> scheduleChecks_fetch L (store s) flt = Inl e
     \<Longrightarrow> goroutine_step L s (print_line (''failed to fetch targets: '' @ e) s)"
| sched_tick: \<comment> \<open>\<^verbatim>\<open>case <-ticker.C\<close>, and the \<^verbatim>\<open>for\<close> loop over the targets starts\<close>
    "scheds s = as @ SchedSelect # bs
     \<Longrightarrow> scheduleChecks_fetch L (store s) flt = Inr (ts, cur)
     \<Longrightarrow> goroutine_step L s (s\<lparr>scheds := as @ PassSelect ts # bs\<rparr>)"
| pass_end: \<comment> \<open>no target left: \<^verbatim>\<open>scheduleChecks\<close> returns\<close>
    "scheds s = as @ PassSelect [] # bs
     \<Longrightarrow> goroutine_step L s (s\<lparr>scheds := as @ SchedSelect # bs\<rparr>)"
| pass_cancelled: \<comment> \<open>\<^verbatim>\<open>case <-c.ctx.Done(): return\<close> in \<^verbatim>\<open>scheduleChecks\<close>\<close>
    "scheds s = as @ PassSelect (t # ts) # bs \<Longrightarrow> cancelled s
     \<Longrightarrow> goroutine_step L s (s\<lparr>scheds := as @ SchedSelect # bs\<rparr>)"
| pass_admit: \<comment> \<open>\<^verbatim>\<open>case c.workers <- struct{}{}\<close>: the channel has room\<close>
    "scheds s = as @ PassSelect (t # ts) # bs
     \<Longrightarrow> int (workers s) < maxConcurrency s
     \<Longrightarrow> goroutine_step L s
           (s\<lparr>scheds := as @ PassAdd t ts # bs, workers := workers s + 1\<rparr>)"
| pass_admit_unbuffered:
    \<comment> \<open>capacity 0: the send completes together with a receive that is waiting\<close>
    "scheds s = as @ PassSelect (t # ts) # bs
     \<Longrightarrow> maxConcurrency s = 0
     \<Longrightarrow> tasks s = cs @ Task t' ReleaseGlobal # ds
     \<Longrightarrow> goroutine_step L s
           (s\<lparr>scheds := as @ PassAdd t ts # bs, tasks := cs @ Task t' WgDone # ds\<rparr>)"
| pass_add: \<comment> \<open>\<^verbatim>\<open>c.wg.Add(1)\<close>\<close>
    "scheds s = as @ PassAdd t ts # bs
     \<Longrightarrow> goroutine_step L s (s\<lparr>scheds := as @ PassGo t ts # bs, wg := wg s + 1\<rparr>)"
| pass_go: \<comment> \<open>\<^verbatim>\<open>go c.checkTarget(target)\<close>, then the next iteration\<close>
    "scheds s = as @ PassGo t ts # bs
     \<Longrightarrow> goroutine_step L s
           (s\<lparr>scheds := as @ PassSelect ts # bs,
              tasks := tasks s @ [Task t AcquireHostLock]\<rparr>)"
| task_lookup: \<comment> \<open>under \<^verbatim>\<open>hostMutex\<close>: the semaphore is created when the host has none\<close>
    "tasks s = cs @ Task t AcquireHostLock # ds
     \<Longrightarrow> goroutine_step L s
           (s\<lparr>tasks := cs @ Task t AcquireHostSelect # ds,
              hostSemaphores :=
                (case hostSemaphores s (Host t) of
                   None \<Rightarrow> (hostSemaphores s)(Host t \<mapsto> 0)
                 | Some n \<Rightarrow> hostSemaphores s)\<rparr>)"
| task_host_acquire: \<comment> \<open>\<^verbatim>\<open>case sem <- struct{}{}: return true\<close>\<close>
    "tasks s = cs @ Task t AcquireHostSelect # ds
     \<Longrightarrow> hostSemaphores s (Host t) = Some n \<Longrightarrow> n < hostCap
     \<Longrightarrow> goroutine_step L s
           (s\<lparr>tasks := cs @ Task t Probing # ds,
              hostSemaphores := (hostSemaphores s)(Host t \<mapsto> n + 1)\<rparr>)"
| task_host_cancelled: \<comment> \<open>\<^verbatim>\<open>case <-c.ctx.Done(): return false\<close>, and \<^verbatim>\<open>checkTarget\<close> returns\<close>
    "tasks s = cs @ Task t AcquireHostSelect # ds \<Longrightarrow> cancelled s
     \<Longrightarrow> goroutine_step L s (s\<lparr>tasks := cs @ Task t ReleaseGlobal # ds\<rparr>)"
| task_probe: \<comment> \<open>\<^verbatim>\<open>result := c.performCheck(target)\<close>\<close>
    "tasks s = cs @ Task t Probing # ds
     \<Longrightarrow> goroutine_step L s
           (s\<lparr>tasks := cs @ Task t (Saving (performCheck t outcome latency now)) # ds\<rparr>)"
| task_save: \<comment> \<open>\<^verbatim>\<open>c.store.InsertCheckResult(c.ctx, result)\<close>, an error is printed\<close>
    "tasks s = cs @ Task t (Saving r) # ds
     \<Longrightarrow> InsertCheckResult L (store s) flt r = (err, db')
     \<Longrightarrow> goroutine_step L s
           (s\<lparr>tasks := cs @ Task t ReleaseHost # ds,
              store := db',
              stdout := stdout s @
                (case err of None \<Rightarrow> [] | Some e \<Rightarrow> [''failed to save check result: '' @ e])\<rparr>)"
| task_release_host: \<comment> \<open>\<^verbatim>\<open>if exists { <-sem }\<close>\<close>
    "tasks s = cs @ Task t ReleaseHost # ds
     \<Longrightarrow> hostSemaphores s (Host t) = Some (Suc n)
     \<Longrightarrow> goroutine_step L s
           (s\<lparr>tasks := cs @ Task t ReleaseGlobal # ds,
              hostSemaphores := (hostSemaphores s)(Host t \<mapsto> n)\<rparr>)"
| task_release_host_absent: \<comment> \<open>\<^verbatim>\<open>exists\<close> is false\<close>
    "tasks s = cs @ Task t ReleaseHost # ds
     \<Longrightarrow> hostSemaphores s (Host t) = None
     \<Longrightarrow> goroutine_step L s (s\<lparr>tasks := cs @ Task t ReleaseGlobal # ds\<rparr>)"
| task_release_global: \<comment> \<open>\<^verbatim>\<open><-c.workers\<close>\<close>
    "tasks s = cs @ Task t ReleaseGlobal # ds \<Longrightarrow> workers s = Suc n
     \<Longrightarrow> goroutine_step L s (s\<lparr>tasks := cs @ Task t WgDone # ds, workers := n\<rparr>)"
| task_wg_done: \<comment> \<open>\<^verbatim>\<open>c.wg.Done()\<close>\<close>
    "tasks s = cs @ Task t WgDone # ds \<Longrightarrow> 0 < wg s
     \<Longrightarrow> goroutine_step L s (s\<lparr>tasks := cs @ Task t Exited # ds, wg := wg s - 1\<rparr>)"
| task_wg_done_panic: \<comment> \<open>\<^verbatim>\<open>sync: negative WaitGroup counter\<close>\<close>
    "tasks s = cs @ Task t WgDone # ds \<Longrightarrow> wg s \<le> 0
     \<Longrightarrow> goroutine_step L s (s\<lparr>panicked := True\<rparr>)"
| shutdown_waiter: \<comment> \<open>\<^verbatim>\<open>c.wg.Wait()\<close> returns when the counter is zero; \<^verbatim>\<open>close(done)\<close>\<close>
    "shutdowns s = es @ sh # fs \<Longrightarrow> wg s = 0
     \<Longrightarrow> goroutine_step L s (s\<lparr>shutdowns := es @ sh\<lparr>sh_done := True\<rparr> # fs\<rparr>)"
| shutdown_timer: \<comment> \<open>the channel of \<^verbatim>\<open>time.After(c.shutdownGrace)\<close> delivers\<close>
    "shutdowns s = es @ sh # fs
     \<Longrightarrow> goroutine_step L s (s\<lparr>shutdowns := es @ sh\<lparr>sh_timer := True\<rparr> # fs\<rparr>)"
| shutdown_return: \<comment> \<open>the \<^verbatim>\<open>select\<close> of \<^verbatim>\<open>Shutdown\<close> takes a ready case, prints, returns\<close>
    "shutdowns s = es @ sh # fs \<Longrightarrow> \<not> sh_returned sh \<Longrightarrow> select_ready sc sh
     \<Longrightarrow> goroutine_step L s
           (print_line (snd (Shutdown_select sc))
              (s\<lparr>shutdowns := es @ sh\<lparr>sh_returned := True\<rparr> # fs\<rparr>))"

text \<open>A panic that no goroutine recovers ends the process: no step follows it.\<close>

definition step :: "'t timelib \<Rightarrow> 't checker \<Rightarrow> 't checker \<Rightarrow> bool" where
  "step L s s' = (\<not> panicked s \<and> goroutine_step L s s')"

inductive reaches :: "'t timelib \<Rightarrow> 't checker \<Rightarrow> 't checker \<Rightarrow> bool" for L c where
  reaches_init: "reaches L c c"
| reaches_step: "reaches L c s \<Longrightarrow> step L s s' \<Longrightarrow> reaches L c s'"

text \<open>Who holds what. A \<^verbatim>\<open>checkTarget\<close> goroutine exists only after the scheduler's
  send on \<^verbatim>\<open>c.workers\<close>, and gives the element back with its deferred receive: it
  holds a global slot at every control point before \<open>WgDone\<close>. It holds a slot of its
  host from the send on the host's semaphore to the deferred receive from it. A
  scheduler at \<open>PassAdd\<close> or \<open>PassGo\<close> has taken a global slot for a goroutine it has not
  started yet.\<close>

fun holds_global :: "'t task_pc \<Rightarrow> bool" where
  "holds_global WgDone = False"
| "holds_global Exited = False"
| "holds_global _ = True"

fun holds_host :: "'t task_pc \<Rightarrow> bool" where
  "holds_host Probing = True"
| "holds_host (Saving r) = True"
| "holds_host ReleaseHost = True"
| "holds_host _ = False"

fun slot_taken :: "'t sched \<Rightarrow> bool" where
  "slot_taken (PassAdd t ts) = True"
| "slot_taken (PassGo t ts) = True"
| "slot_taken _ = False"

definition global_holders :: "'t checker \<Rightarrow> nat" where
  "global_holders s = length (filter (\<lambda>t. holds_global (task_pc t)) (tasks s))"

definition host_holders :: "'t checker \<Rightarrow> string \<Rightarrow> nat" where
  "host_holders s h =
     length (filter (\<lambda>t. Host (task_target t) = h \<and> holds_host (task_pc t)) (tasks s))"

definition slots_taken :: "'t checker \<Rightarrow> nat" where
  "slots_taken s = length (filter slot_taken (scheds s))"

text \<open>The invariants of the two limiters and of the \<^verbatim>\<open>WaitGroup\<close>. The channel
  \<^verbatim>\<open>c.workers\<close> holds one element for each goroutine that holds a global slot and for
  each slot a scheduler has taken for a goroutine not yet started; the semaphore of a
  host holds one element for each goroutine that holds a slot of that host; the counter
  of \<^verbatim>\<open>c.wg\<close> is the number of goroutines that have not run their \<^verbatim>\<open>c.wg.Done()\<close>
  (a scheduler at \<open>PassGo\<close> has already added one for the goroutine it starts next).\<close>

definition global_inv :: "'t checker \<Rightarrow> bool" where
  "global_inv s =
     (workers s = global_holders s + slots_taken s \<and> int (workers s) \<le> maxConcurrency s)"

definition host_inv :: "'t checker \<Rightarrow> string \<Rightarrow> bool" where
  "host_inv s h =
     (case hostSemaphores s h of
        None \<Rightarrow> host_holders s h = 0
      | Some n \<Rightarrow> n = host_holders s h \<and> n \<le> hostCap)"

fun go_pending :: "'t sched \<Rightarrow> bool" where
  "go_pending (PassGo t ts) = True"
| "go_pending _ = False"

definition outstanding :: "'t checker \<Rightarrow> nat" where
  "outstanding s =
     length (filter (\<lambda>p. p \<noteq> SchedExited) (scheds s))
     + length (filter (\<lambda>t. task_pc t \<noteq> Exited) (tasks s))
     + length (filter go_pending (scheds s))"

definition wg_inv :: "'t checker \<Rightarrow> bool" where
  "wg_inv s = (wg s = int (outstanding s))"

section \<open>A concrete clock and a small run\<close>

text \<open>
  To run the definitions on concrete inputs the time parameter needs a value. This is a
  clock of wall-clock readings with whole seconds and an offset from UTC in minutes,
  written and read in the layout \<^verbatim>\<open>2006-01-02T15:04:05Z07:00\<close> of \<^verbatim>\<open>time.RFC3339\<close>.
  It is used in the examples only: every general theorem below is about an arbitrary
  \<open>timelib\<close>.
\<close>

record civil =
  c_year :: nat
  c_month :: nat
  c_day :: nat
  c_hour :: nat
  c_minute :: nat
  c_second :: nat
  c_offset :: int

definition digit :: "nat \<Rightarrow> char" where
  "digit n = char_of (48 + n mod 10)"

definition pad2 :: "nat \<Rightarrow> string" where
  "pad2 n = [digit (n div 10), digit n]"

definition pad4 :: "nat \<Rightarrow> string" where
  "pad4 n = [digit (n div 1000), digit (n div 100), digit (n div 10), digit n]"

definition civil_zone :: "int \<Rightarrow> string" where
  "civil_zone off =
     (if off = 0 then ''Z''
      else (if off < 0 then ''-'' else ''+'')
           @ pad2 (nat \<bar>off\<bar> div 60) @ '':'' @ pad2 (nat \<bar>off\<bar> mod 60))"

definition civil_format :: "civil \<Rightarrow> string" where
  "civil_format c =
     pad4 (c_year c) @ ''-'' @ pad2 (c_month c) @ ''-'' @ pad2 (c_day c) @ ''T''
     @ pad2 (c_hour c) @ '':'' @ pad2 (c_minute c) @ '':'' @ pad2 (c_second c)
     @ civil_zone (c_offset c)"

definition digit_val :: "char \<Rightarrow> nat option" where
  "digit_val ch =
     (let n = (of_char ch :: nat) in if 48 \<le> n \<and> n \<le> 57 then Some (n - 48) else None)"

fun number :: "nat \<Rightarrow> string \<Rightarrow> nat option" where
  "number acc [] = Some acc"
| "number acc (ch # s) =
     (case digit_val ch of None \<Rightarrow> None | Some d \<Rightarrow> number (10 * acc + d) s)"

definition leap :: "nat \<Rightarrow> bool" where
  "leap y = (y mod 4 = 0 \<and> (y mod 100 \<noteq> 0 \<or> y mod 400 = 0))"

definition days_in :: "nat \<Rightarrow> nat \<Rightarrow> nat" where
  "days_in m y =
     (if m = 2 then (if leap y then 29 else 28)
      else if m = 4 \<or> m = 6 \<or> m = 9 \<or> m = 11 then 30 else 31)"

definition parse_zone :: "string \<Rightarrow> int option" where
  "parse_zone z =
     (if z = ''Z'' then Some 0
      else if length z = 6 \<and> (z ! 0 = CHR ''+'' \<or> z ! 0 = CHR ''-'') \<and> z ! 3 = CHR '':''
      then (case (number 0 (take 2 (drop 1 z)), number 0 (drop 4 z)) of
              (Some hh, Some mm) \<Rightarrow>
                (if hh \<le> 23 \<and> mm \<le> 59
                 then Some ((if z ! 0 = CHR ''-'' then - 1 else 1) * int (hh * 60 + mm))
                 else None)
            | _ \<Rightarrow> None)
      else None)"

definition civil_parse :: "string \<Rightarrow> civil option" where
  "civil_parse s =
     (if length s < 20 \<or> s ! 4 \<noteq> CHR ''-'' \<or> s ! 7 \<noteq> CHR ''-'' \<or> s ! 10 \<noteq> CHR ''T''
         \<or> s ! 13 \<noteq> CHR '':'' \<or> s ! 16 \<noteq> CHR '':''
      then None
      else (case (number 0 (take 4 s), number 0 (take 2 (drop 5 s)),
                  number 0 (take 2 (drop 8 s)), number 0 (take 2 (drop 11 s)),
                  number 0 (take 2 (drop 14 s)), number 0 (take 2 (drop 17 s)),
                  parse_zone (drop 19 s)) of
              (Some y, Some m, Some d, Some h, Some mi, Some se, Some off) \<Rightarrow>
                (if 1 \<le> m \<and> m \<le> 12 \<and> 1 \<le> d \<and> d \<le> days_in m y \<and> h \<le> 23 \<and> mi \<le> 59
                    \<and> se \<le> 59
                 then Some \<lparr>c_year = y, c_month = m, c_day = d, c_hour = h, c_minute = mi,
                            c_second = se, c_offset = off\<rparr>
                 else None)
            | _ \<Rightarrow> None))"

text \<open>\<^verbatim>\<open>time.Time{}\<close> is January 1 of year 1, 00:00:00 UTC; \<^verbatim>\<open>IsZero\<close> holds of every
  reading of that instant.\<close>

definition civil_zero :: civil where
  "civil_zero = \<lparr>c_year = 1, c_month = 1, c_day = 1, c_hour = 0, c_minute = 0,
                  c_second = 0, c_offset = 0\<rparr>"

definition civil_IsZero :: "civil \<Rightarrow> bool" where
  "civil_IsZero c =
     (c_second c = 0 \<and>
      (if 0 \<le> c_offset c
       then c_year c = 1 \<and> c_month c = 1 \<and> c_day c = 1
            \<and> int (c_hour c * 60 + c_minute c) = c_offset c
       else c_year c = 0 \<and> c_month c = 12 \<and> c_day c = 31
            \<and> int (c_hour c * 60 + c_minute c) = 1440 + c_offset c))"

definition rfc3339 :: "civil timelib" where
  "rfc3339 = \<lparr>time_zero = civil_zero, time_IsZero = civil_IsZero,
               time_Format = civil_format, time_Parse = civil_parse\<rparr>"

definition no_faults :: db_faults where
  "no_faults = \<lparr>query_err = None, exec_err = None, scan_err = None\<rparr>"

text \<open>A store with one registered target, a checker with a global cap of 1 on it, and
  the states of a run: \<^verbatim>\<open>Start\<close>, the ticker is made, a tick fetches the target, the
  scheduler takes the global slot, adds to the wait group, starts the goroutine, which
  creates the semaphore of its host and takes a slot of it.\<close>

definition example_row :: target_row where
  "example_row = \<lparr>row_id = ''t_1'', row_url = ''https://example.com'',
                   row_host = ''example.com'', row_created_at = ''2024-01-02T03:04:05Z''\<rparr>"

definition example_db :: database where
  "example_db = \<lparr>targets = [example_row], check_results = []\<rparr>"

definition example_target :: "civil Target" where
  "example_target = scanTarget rfc3339 example_row"

definition example_checker :: "civil checker" where
  "example_checker =
     \<lparr>store = example_db, checkInterval = 15000000000, maxConcurrency = 1,
      httpTimeout = 5000000000, shutdownGrace = 10000000000, workers = 0,
      hostSemaphores = (\<lambda>h. None), cancelled = False, wg = 0, scheds = [], tasks = [],
      shutdowns = [], stdout = [], panicked = False\<rparr>"

definition example_started :: "civil checker" where
  "example_started = Start example_checker"

definition example_ticking :: "civil checker" where
  "example_ticking = example_started\<lparr>scheds := [SchedSelect]\<rparr>"

definition example_pass :: "civil checker" where
  "example_pass = example_ticking\<lparr>scheds := [PassSelect [example_target]]\<rparr>"

definition example_admitted :: "civil checker" where
  "example_admitted = example_pass\<lparr>scheds := [PassAdd example_target []], workers := 1\<rparr>"

definition example_added :: "civil checker" where
  "example_added = example_admitted\<lparr>scheds := [PassGo example_target []], wg := 2\<rparr>"

definition example_spawned :: "civil checker" where
  "example_spawned =
     example_added\<lparr>scheds := [PassSelect []],
                   tasks := [Task example_target AcquireHostLock]\<rparr>"

definition example_waiting :: "civil checker" where
  "example_waiting =
     example_spawned\<lparr>tasks := [Task example_target AcquireHostSelect],
                     hostSemaphores := (\<lambda>h. None)(''example.com'' \<mapsto> 0)\<rparr>"

definition example_probing :: "civil checker" where
  "example_probing =
     example_waiting\<lparr>tasks := [Task example_target Probing],
                     hostSemaphores := (\<lambda>h. None)(''example.com'' \<mapsto> 1)\<rparr>"

text \<open>A second run: \<^verbatim>\<open>Shutdown\<close> is called on the checker before any \<^verbatim>\<open>Start\<close>; the
  waiting goroutine finds the counter at zero and closes \<^verbatim>\<open>done\<close>; the call returns.\<close>

definition example_shutdown :: "civil checker" where
  "example_shutdown = Shutdown_call example_checker"

definition example_done :: "civil checker" where
  "example_done =
     example_shutdown\<lparr>shutdowns := [\<lparr>sh_done = True, sh_timer = False, sh_returned = False\<rparr>]\<rparr>"

definition example_returned :: "civil checker" where
  "example_returned =
     print_line ''checker shut down gracefully''
       (example_done\<lparr>shutdowns := [\<lparr>sh_done = True, sh_timer = False, sh_returned = True\<rparr>]\<rparr>)"

section \<open>Page tokens (internal/http)\<close>

text \<open>
  \<^verbatim>\<open>strings.Split(s, "|")\<close>: the pieces of \<open>s\<close> between the separators, one more than
  there are separators.
\<close>

fun split_on :: "char \<Rightarrow> string \<Rightarrow> string list" where
  "split_on sep [] = [[]]"
| "split_on sep (x # xs) =
     (if x = sep then [] # split_on sep xs
      else (case split_on sep xs of [] \<Rightarrow> [[x]] | p # ps \<Rightarrow> (x # p) # ps))"

text \<open>
  \<^verbatim>\<open>base64.URLEncoding\<close> of Go's \<^verbatim>\<open>encoding/base64\<close> (the alphabet of RFC 4648,
  section 5, with \<^verbatim>\<open>=\<close> padding). \<^verbatim>\<open>EncodeToString\<close> maps three bytes to four
  characters and pads the last group. \<^verbatim>\<open>DecodeString\<close> ignores carriage returns and
  line feeds, wants every group complete and padded, refuses anything after the
  padding, and does not check the unused bits of a padded group; \<open>None\<close> is its error.
\<close>

definition b64_char :: "nat \<Rightarrow> char" where
  "b64_char i =
     (if i < 26 then char_of (65 + i)
      else if i < 52 then char_of (97 + (i - 26))
      else if i < 62 then char_of (48 + (i - 52))
      else if i = 62 then CHR ''-'' else CHR ''_'')"

definition b64_val :: "char \<Rightarrow> nat option" where
  "b64_val ch =
     (let n = (of_char ch :: nat)
      in if 65 \<le> n \<and> n \<le> 90 then Some (n - 65)
         else if 97 \<le> n \<and> n \<le> 122 then Some (n - 97 + 26)
         else if 48 \<le> n \<and> n \<le> 57 then Some (n - 48 + 52)
         else if ch = CHR ''-'' then Some 62
         else if ch = CHR ''_'' then Some 63
         else None)"

fun EncodeToString :: "string \<Rightarrow> string" where
  "EncodeToString (a # b # c # rest) =
     (let x = (of_char a :: nat); y = (of_char b :: nat); z = (of_char c :: nat)
      in [b64_char (x div 4), b64_char ((x mod 4) * 16 + y div 16),
          b64_char ((y mod 16) * 4 + z div 64), b64_char (z mod 64)] @ EncodeToString rest)"
| "EncodeToString [a, b] =
     (let x = (of_char a :: nat); y = (of_char b :: nat)
      in [b64_char (x div 4), b64_char ((x mod 4) * 16 + y div 16),
          b64_char ((y mod 16) * 4), CHR ''=''])"
| "EncodeToString [a] =
     (let x = (of_char a :: nat)
      in [b64_char (x div 4), b64_char ((x mod 4) * 16), CHR ''='', CHR ''=''])"
| "EncodeToString [] = []"

fun decode_quanta :: "string \<Rightarrow> string option" where
  "decode_quanta (a # b # c # d # rest) =
     (case (b64_val a, b64_val b) of
        (Some x, Some y) \<Rightarrow>
          (if c = CHR ''=''
           then (if d = CHR ''='' \<and> rest = [] then Some [char_of (x * 4 + y div 16)] else None)
           else (case b64_val c of
                   None \<Rightarrow> None
                 | Some z \<Rightarrow>
                    (if d = CHR ''=''
                     then (if rest = []
                           then Some [char_of (x * 4 + y div 16),
                                      char_of ((y mod 16) * 16 + z div 4)]
                           else None)
                     else (case b64_val d of
                             None \<Rightarrow> None
                           | Some w \<Rightarrow>
                              (case decode_quanta rest of
                                 None \<Rightarrow> None
                               | Some r \<Rightarrow>
                                  Some (char_of (x * 4 + y div 16)
                                        # char_of ((y mod 16) * 16 + z div 4)
                                        # char_of ((z mod 4) * 64 + w) # r))))))
      | _ \<Rightarrow> None)"
| "decode_quanta [] = Some []"
| "decode_quanta _ = None"

definition DecodeString :: "string \<Rightarrow> string option" where
  "DecodeString s = decode_quanta (filter (\<lambda>ch. ch \<noteq> CHR 0x0A \<and> ch \<noteq> CHR 0x0D) s)"

text \<open>\<^verbatim>\<open>buildCursorToken\<close> and \<^verbatim>\<open>parseCursorToken\<close>; \<^verbatim>\<open>fmt.Sprintf("%s|%s", ...)\<close> is
  the concatenation.\<close>

definition buildCursorToken :: "'t timelib \<Rightarrow> 't \<Rightarrow> string \<Rightarrow> string" where
  "buildCursorToken L createdAt ident =
     (let token = time_Format L createdAt @ ''|'' @ ident in EncodeToString token)"

definition parseCursorToken :: "'t timelib \<Rightarrow> string \<Rightarrow> 't \<times> string" where
  "parseCursorToken L token =
     (if token = [] then (time_zero L, [])
      else (case DecodeString token of
              None \<Rightarrow> (time_zero L, [])
            | Some decoded \<Rightarrow>
               (let parts = split_on (CHR ''|'') decoded
                in if length parts \<noteq> 2 then (time_zero L, [])
                   else (case time_Parse L (parts ! 0) of
                           None \<Rightarrow> (time_zero L, [])
                         | Some createdAt \<Rightarrow> (createdAt, parts ! 1)))))"

section \<open>URL canonicalization (internal/model)\<close>

text \<open>
  \<^verbatim>\<open>Canonicalize\<close> works on Go's \<^verbatim>\<open>url.URL\<close>. The struct is this record, without the
  field \<^verbatim>\<open>User\<close> (see the model of \<^verbatim>\<open>url.Parse\<close> below); \<^verbatim>\<open>Host\<close> is named \<open>URLHost\<close>.
\<close>

record URL =
  Scheme :: string
  Opaque :: string
  URLHost :: string
  Path :: string
  RawPath :: string
  OmitHost :: bool
  ForceQuery :: bool
  RawQuery :: string
  Fragment :: string
  RawFragment :: string

text \<open>
  The functions of Go's standard library that \<^verbatim>\<open>Canonicalize\<close> and \<^verbatim>\<open>sortQueryParams\<close>
  call and that are more than a line: \<^verbatim>\<open>url.Parse\<close>, \<^verbatim>\<open>(*URL).String\<close>,
  \<^verbatim>\<open>url.ParseQuery\<close> (its \<^verbatim>\<open>url.Values\<close> is a list of keys with their values, each key
  once) and \<^verbatim>\<open>strings.ToLower\<close>. They are a parameter of the repository's functions.
\<close>

record golib =
  url_Parse :: "string \<Rightarrow> string + URL"
  url_String :: "URL \<Rightarrow> string"
  url_ParseQuery :: "string \<Rightarrow> string + (string \<times> string list) list"
  strings_ToLower :: "string \<Rightarrow> string"

text \<open>\<^verbatim>\<open>strings.HasPrefix\<close>, \<^verbatim>\<open>strings.HasSuffix\<close>, \<^verbatim>\<open>strings.TrimSuffix\<close>,
  \<^verbatim>\<open>strings.Join\<close>.\<close>

definition HasPrefix :: "string \<Rightarrow> string \<Rightarrow> bool" where
  "HasPrefix s pre = (take (length pre) s = pre)"

definition HasSuffix :: "string \<Rightarrow> string \<Rightarrow> bool" where
  "HasSuffix s suf = (length suf \<le> length s \<and> drop (length s - length suf) s = suf)"

definition TrimSuffix :: "string \<Rightarrow> string \<Rightarrow> string" where
  "TrimSuffix s suf = (if HasSuffix s suf then take (length s - length suf) s else s)"

fun Join :: "string list \<Rightarrow> string \<Rightarrow> string" where
  "Join [] sep = []"
| "Join [x] sep = x"
| "Join (x # y # ys) sep = x @ sep @ Join (y # ys) sep"

text \<open>\<^verbatim>\<open>(*URL).Hostname\<close> and \<^verbatim>\<open>(*URL).Port\<close>, both through \<^verbatim>\<open>splitHostPort\<close>: the text
  after the last colon is the port when it is made of digits only.\<close>

definition validOptionalPort :: "string \<Rightarrow> bool" where
  "validOptionalPort port =
     (case port of
        [] \<Rightarrow> True
      | c # ds \<Rightarrow> c = CHR '':'' \<and> list_all (\<lambda>b. CHR ''0'' \<le> b \<and> b \<le> CHR ''9'') ds)"

definition splitHostPort :: "string \<Rightarrow> string \<times> string" where
  "splitHostPort hostPort =
     (let after = rev (takeWhile (\<lambda>c. c \<noteq> CHR '':'') (rev hostPort));
          (host, port) =
            (if CHR '':'' \<in> set hostPort \<and> validOptionalPort (CHR '':'' # after)
             then (take (length hostPort - length after - 1) hostPort, after)
             else (hostPort, []))
      in (if HasPrefix host ''['' \<and> HasSuffix host '']''
          then take (length host - 2) (drop 1 host) else host,
          port))"

definition Hostname :: "URL \<Rightarrow> string" where
  "Hostname u = fst (splitHostPort (URLHost u))"

definition Port :: "URL \<Rightarrow> string" where
  "Port u = snd (splitHostPort (URLHost u))"

text \<open>\<^verbatim>\<open>normalizePath\<close>, \<^verbatim>\<open>sortQueryParams\<close> and \<^verbatim>\<open>Canonicalize\<close> of
  \<^verbatim>\<open>internal/model/canonicalize.go\<close>. In \<^verbatim>\<open>sortQueryParams\<close> the keys of the map are
  collected and sorted with \<^verbatim>\<open>sort.Strings\<close>; \<^verbatim>\<open>fmt.Sprintf("%s=%s", k, v)\<close> is the
  concatenation.\<close>

definition normalizePath :: "string \<Rightarrow> string" where
  "normalizePath path =
     (if path = [] \<or> path = ''/'' then []
      else if HasSuffix path ''/'' then TrimSuffix path ''/''
      else path)"

definition sortQueryParams :: "golib \<Rightarrow> string \<Rightarrow> string" where
  "sortQueryParams G rawQuery =
     (case url_ParseQuery G rawQuery of
        Inl err \<Rightarrow> rawQuery
      | Inr values \<Rightarrow>
         (let keys = sort (remdups (map fst values));
              pairs = concat (map (\<lambda>k. map (\<lambda>v. k @ ''='' @ v)
                                           (case map_of values k of None \<Rightarrow> [] | Some vs \<Rightarrow> vs))
                                  keys)
          in Join pairs ''&''))"

datatype canon_error = InvalidURL string | UnsupportedScheme string

definition Canonicalize :: "golib \<Rightarrow> string \<Rightarrow> canon_error + (string \<times> string)" where
  "Canonicalize G raw =
     (case url_Parse G raw of
        Inl err \<Rightarrow> Inl (InvalidURL err)
      | Inr parsed \<Rightarrow>
         (if Scheme parsed \<noteq> ''http'' \<and> Scheme parsed \<noteq> ''https''
          then Inl (UnsupportedScheme (Scheme parsed))
          else
            (let p1 = parsed\<lparr>Scheme := strings_ToLower G (Scheme parsed)\<rparr>;
                 p2 = p1\<lparr>URLHost := strings_ToLower G (URLHost p1)\<rparr>;
                 p3 = (if Scheme p2 = ''http'' \<and> Port p2 = ''80''
                       then p2\<lparr>URLHost := Hostname p2\<rparr> else p2);
                 p4 = (if Scheme p3 = ''https'' \<and> Port p3 = ''443''
                       then p3\<lparr>URLHost := Hostname p3\<rparr> else p3);
                 p5 = p4\<lparr>Fragment := []\<rparr>;
                 p6 = (if RawQuery p5 \<noteq> []
                       then p5\<lparr>RawQuery := sortQueryParams G (RawQuery p5)\<rparr> else p5);
                 p7 = p6\<lparr>Path := normalizePath (Path p6)\<rparr>
             in Inr (url_String G p7, URLHost p7))))"

section \<open>A model of net/url\<close>

text \<open>
  To run \<^verbatim>\<open>Canonicalize\<close> on concrete inputs the library parameter needs a value. The
  definitions below follow the source of \<^verbatim>\<open>net/url\<close> (Go 1.21, the version of the
  repository's Dockerfile): \<^verbatim>\<open>shouldEscape\<close>, \<^verbatim>\<open>escape\<close>, \<^verbatim>\<open>unescape\<close>,
  \<^verbatim>\<open>validEncoded\<close>, \<^verbatim>\<open>getScheme\<close>, \<^verbatim>\<open>parseHost\<close>, \<^verbatim>\<open>setPath\<close>, \<^verbatim>\<open>setFragment\<close>,
  \<^verbatim>\<open>parse\<close>, \<^verbatim>\<open>Parse\<close>, \<^verbatim>\<open>EscapedPath\<close>, \<^verbatim>\<open>EscapedFragment\<close>, \<^verbatim>\<open>String\<close> and
  \<^verbatim>\<open>parseQuery\<close>. Three things are left out, and the model of \<^verbatim>\<open>Parse\<close> says so
  instead of answering: user information (an \<^verbatim>\<open>@\<close> in the authority), hosts in
  brackets (IPv6 literals and zones), and bytes outside ASCII (on which
  \<^verbatim>\<open>strings.ToLower\<close> is more than the lowering of \<^verbatim>\<open>A\<close> to \<^verbatim>\<open>Z\<close>). Errors are their
  texts, without the wrapping \<^verbatim>\<open>url.Error\<close>.
\<close>

datatype encoding = encodePath | encodeHost | encodeQueryComponent | encodeFragment

definition is_alpha :: "char \<Rightarrow> bool" where
  "is_alpha c = (CHR ''a'' \<le> c \<and> c \<le> CHR ''z'' \<or> CHR ''A'' \<le> c \<and> c \<le> CHR ''Z'')"

definition is_digit :: "char \<Rightarrow> bool" where
  "is_digit c = (CHR ''0'' \<le> c \<and> c \<le> CHR ''9'')"

definition ishex :: "char \<Rightarrow> bool" where
  "ishex c = (is_digit c \<or> CHR ''a'' \<le> c \<and> c \<le> CHR ''f'' \<or> CHR ''A'' \<le> c \<and> c \<le> CHR ''F'')"

definition unhex :: "char \<Rightarrow> nat" where
  "unhex c =
     (if is_digit c then of_char c - 48
      else if CHR ''a'' \<le> c \<and> c \<le> CHR ''f'' then of_char c - 97 + 10
      else if CHR ''A'' \<le> c \<and> c \<le> CHR ''F'' then of_char c - 65 + 10
      else 0)"

definition shouldEscape :: "char \<Rightarrow> encoding \<Rightarrow> bool" where
  "shouldEscape c mode =
     (if is_alpha c \<or> is_digit c then False
      else if mode = encodeHost \<and> c \<in> set (''!$&()*+,;=:[]<>'' @ [CHR 0x27, CHR 0x22]) then False
      else if c \<in> set ''-_.~'' then False
      else if c \<in> set ''$&+,/:;=?@''
      then (case mode of
              encodePath \<Rightarrow> c = CHR ''?''
            | encodeQueryComponent \<Rightarrow> True
            | encodeFragment \<Rightarrow> False
            | encodeHost \<Rightarrow> True)
      else if mode = encodeFragment \<and> c \<in> set ''!()*'' then False
      else True)"

definition upperhex :: "nat \<Rightarrow> char" where
  "upperhex n = ''0123456789ABCDEF'' ! n"

fun escape :: "string \<Rightarrow> encoding \<Rightarrow> string" where
  "escape [] mode = []"
| "escape (c # cs) mode =
     (if shouldEscape c mode
      then (if c = CHR '' '' \<and> mode = encodeQueryComponent then ''+''
            else [CHR ''%'', upperhex (of_char c div 16), upperhex (of_char c mod 16)])
      else [c]) @ escape cs mode"

fun unescape :: "string \<Rightarrow> encoding \<Rightarrow> string option" where
  "unescape [] mode = Some []"
| "unescape (c # cs) mode =
     (if c = CHR ''%''
      then (case cs of
              h1 # h2 # rest \<Rightarrow>
                (if \<not> ishex h1 \<or> \<not> ishex h2 then None
                 else if mode = encodeHost \<and> unhex h1 < 8 \<and> [h1, h2] \<noteq> ''25'' then None
                 else map_option ((#) (char_of (unhex h1 * 16 + unhex h2))) (unescape rest mode))
            | _ \<Rightarrow> None)
      else if c = CHR ''+''
      then map_option ((#) (if mode = encodeQueryComponent then CHR '' '' else CHR ''+''))
             (unescape cs mode)
      else if mode = encodeHost \<and> (of_char c :: nat) < 128 \<and> shouldEscape c encodeHost then None
      else map_option ((#) c) (unescape cs mode))"

definition validEncoded :: "string \<Rightarrow> encoding \<Rightarrow> bool" where
  "validEncoded s mode =
     list_all (\<lambda>c. c \<in> set (''!$&()*+,;=:@[]%'' @ [CHR 0x27]) \<or> \<not> shouldEscape c mode) s"

text \<open>\<^verbatim>\<open>strings.Cut(s, sep)\<close> for a separator of one byte: the text before the first
  separator and the text after it (all of \<open>s\<close> and nothing when there is none).\<close>

definition Cut :: "string \<Rightarrow> char \<Rightarrow> string \<times> string" where
  "Cut s sep = (takeWhile (\<lambda>c. c \<noteq> sep) s, drop 1 (dropWhile (\<lambda>c. c \<noteq> sep) s))"

fun getScheme_from :: "string \<Rightarrow> string \<Rightarrow> string \<Rightarrow> string + (string \<times> string)" where
  "getScheme_from rawURL seen [] = Inr ([], rawURL)"
| "getScheme_from rawURL seen (c # cs) =
     (if is_alpha c then getScheme_from rawURL (seen @ [c]) cs
      else if is_digit c \<or> c = CHR ''+'' \<or> c = CHR ''-'' \<or> c = CHR ''.''
      then (if seen = [] then Inr ([], rawURL) else getScheme_from rawURL (seen @ [c]) cs)
      else if c = CHR '':''
      then (if seen = [] then Inl ''missing protocol scheme'' else Inr (seen, cs))
      else Inr ([], rawURL))"

definition getScheme :: "string \<Rightarrow> string + (string \<times> string)" where
  "getScheme rawURL = getScheme_from rawURL [] rawURL"

definition ascii_lower :: "string \<Rightarrow> string" where
  "ascii_lower s =
     map (\<lambda>c. if CHR ''A'' \<le> c \<and> c \<le> CHR ''Z'' then char_of (of_char c + (32::nat)) else c) s"

definition parseHost :: "string \<Rightarrow> string + string" where
  "parseHost host =
     (let after = rev (takeWhile (\<lambda>c. c \<noteq> CHR '':'') (rev host))
      in if CHR '':'' \<in> set host \<and> \<not> validOptionalPort (CHR '':'' # after)
         then Inl ''invalid port after host''
         else (case unescape host encodeHost of
                 None \<Rightarrow> Inl ''invalid character or escape in host name''
               | Some h \<Rightarrow> Inr h))"

definition setPath :: "URL \<Rightarrow> string \<Rightarrow> string + URL" where
  "setPath u p =
     (case unescape p encodePath of
        None \<Rightarrow> Inl ''invalid URL escape''
      | Some path \<Rightarrow>
         Inr (u\<lparr>Path := path, RawPath := (if escape path encodePath = p then [] else p)\<rparr>))"

definition setFragment :: "URL \<Rightarrow> string \<Rightarrow> string + URL" where
  "setFragment u f =
     (case unescape f encodeFragment of
        None \<Rightarrow> Inl ''invalid URL escape''
      | Some frag \<Rightarrow>
         Inr (u\<lparr>Fragment := frag,
                RawFragment := (if escape frag encodeFragment = f then [] else f)\<rparr>))"

definition empty_URL :: URL where
  "empty_URL = \<lparr>Scheme = [], Opaque = [], URLHost = [], Path = [], RawPath = [],
                 OmitHost = False, ForceQuery = False, RawQuery = [], Fragment = [],
                 RawFragment = []\<rparr>"

definition parse :: "string \<Rightarrow> string + URL" where
  "parse rawURL =
     (if list_ex (\<lambda>b. (of_char b :: nat) < 32 \<or> (of_char b :: nat) = 127) rawURL
      then Inl ''net/url: invalid control character in URL''
      else if rawURL = ''*'' then Inr (empty_URL\<lparr>Path := ''*''\<rparr>)
      else (case getScheme rawURL of
              Inl e \<Rightarrow> Inl e
            | Inr (scheme0, rest0) \<Rightarrow>
               (let scheme = ascii_lower scheme0;
                    force = (HasSuffix rest0 ''?'' \<and> length (filter (\<lambda>c. c = CHR ''?'') rest0) = 1);
                    rest = (if force then butlast rest0 else fst (Cut rest0 (CHR ''?'')));
                    query = (if force then [] else snd (Cut rest0 (CHR ''?'')));
                    u = empty_URL\<lparr>Scheme := scheme, ForceQuery := force, RawQuery := query\<rparr>
                in if \<not> HasPrefix rest ''/'' \<and> scheme \<noteq> [] then Inr (u\<lparr>Opaque := rest\<rparr>)
                   else if \<not> HasPrefix rest ''/'' \<and> CHR '':'' \<in> set (fst (Cut rest (CHR ''/'')))
                   then Inl ''first path segment in URL cannot contain colon''
                   else if (scheme \<noteq> [] \<or> \<not> HasPrefix rest ''///'') \<and> HasPrefix rest ''//''
                   then (let authority = takeWhile (\<lambda>c. c \<noteq> CHR ''/'') (drop 2 rest);
                             rest' = dropWhile (\<lambda>c. c \<noteq> CHR ''/'') (drop 2 rest)
                         in if CHR ''@'' \<in> set authority \<or> HasPrefix authority ''[''
                            then Inl ''(user information and bracketed hosts are not modelled)''
                            else (case parseHost authority of
                                    Inl e \<Rightarrow> Inl e
                                  | Inr host \<Rightarrow> setPath (u\<lparr>URLHost := host\<rparr>) rest'))
                   else setPath (u\<lparr>OmitHost := (scheme \<noteq> [] \<and> HasPrefix rest ''/'')\<rparr>) rest)))"

definition go_Parse :: "string \<Rightarrow> string + URL" where
  "go_Parse rawURL =
     (if list_ex (\<lambda>b. (of_char b :: nat) \<ge> 128) rawURL
      then Inl ''(bytes outside ASCII are not modelled)''
      else (case parse (fst (Cut rawURL (CHR ''#''))) of
              Inl e \<Rightarrow> Inl e
            | Inr u \<Rightarrow>
               (if snd (Cut rawURL (CHR ''#'')) = [] then Inr u
                else setFragment u (snd (Cut rawURL (CHR ''#''))))))"

definition EscapedPath :: "URL \<Rightarrow> string" where
  "EscapedPath u =
     (if RawPath u \<noteq> [] \<and> validEncoded (RawPath u) encodePath
         \<and> unescape (RawPath u) encodePath = Some (Path u)
      then RawPath u
      else if Path u = ''*'' then ''*''
      else escape (Path u) encodePath)"

definition EscapedFragment :: "URL \<Rightarrow> string" where
  "EscapedFragment u =
     (if RawFragment u \<noteq> [] \<and> validEncoded (RawFragment u) encodeFragment
         \<and> unescape (RawFragment u) encodeFragment = Some (Fragment u)
      then RawFragment u
      else escape (Fragment u) encodeFragment)"

definition go_String :: "URL \<Rightarrow> string" where
  "go_String u =
     (let b1 = (if Scheme u \<noteq> [] then Scheme u @ '':'' else []);
          b2 = (if Opaque u \<noteq> [] then b1 @ Opaque u
                else
                  (let b3 = (if Scheme u \<noteq> [] \<or> URLHost u \<noteq> []
                             then (if OmitHost u \<and> URLHost u = [] then b1
                                   else b1 @ (if URLHost u \<noteq> [] \<or> Path u \<noteq> [] then ''//'' else [])
                                           @ (if URLHost u \<noteq> [] then escape (URLHost u) encodeHost
                                              else []))
                             else b1);
                       path = EscapedPath u;
                       b4 = (if path \<noteq> [] \<and> hd path \<noteq> CHR ''/'' \<and> URLHost u \<noteq> []
                             then b3 @ ''/'' else b3);
                       b5 = (if b4 = [] \<and> CHR '':'' \<in> set (fst (Cut path (CHR ''/'')))
                             then b4 @ ''./'' else b4)
                   in b5 @ path));
          b6 = (if ForceQuery u \<or> RawQuery u \<noteq> [] then b2 @ ''?'' @ RawQuery u else b2)
      in if Fragment u \<noteq> [] then b6 @ ''#'' @ EscapedFragment u else b6)"

definition add_value :: "(string \<times> string list) list \<Rightarrow> string \<Rightarrow> string \<Rightarrow> (string \<times> string list) list" where
  "add_value m k v =
     (if k \<in> fst ` set m then map (\<lambda>(k', vs). if k' = k then (k', vs @ [v]) else (k', vs)) m
      else m @ [(k, [v])])"

fun parseQuery :: "string list \<Rightarrow> (string \<times> string list) list \<Rightarrow> bool
                     \<Rightarrow> (string \<times> string list) list \<times> bool" where
  "parseQuery [] m err = (m, err)"
| "parseQuery (key # others) m err =
     (if CHR '';'' \<in> set key then parseQuery others m True
      else if key = [] then parseQuery others m err
      else (case (unescape (fst (Cut key (CHR ''=''))) encodeQueryComponent,
                  unescape (snd (Cut key (CHR ''=''))) encodeQueryComponent) of
              (Some k, Some v) \<Rightarrow> parseQuery others (add_value m k v) err
            | _ \<Rightarrow> parseQuery others m True))"

definition go_ParseQuery :: "string \<Rightarrow> string + (string \<times> string list) list" where
  "go_ParseQuery query =
     (case parseQuery (split_on (CHR ''&'') query) [] False of
        (m, True) \<Rightarrow> Inl ''invalid query''
      | (m, False) \<Rightarrow> Inr m)"

definition net_url :: golib where
  "net_url = \<lparr>url_Parse = go_Parse, url_String = go_String, url_ParseQuery = go_ParseQuery,
               strings_ToLower = ascii_lower\<rparr>"

section \<open>Theorems\<close>

subsection \<open>The probe result\<close>


subsection \<open>The example run\<close>

lemmas measures = global_holders_def slots_taken_def host_holders_def outstanding_def
lemmas calls = Start_def Shutdown_call_def print_line_def

lemma example_target_eq: "example_target = \<lparr>ID = ''t_1'', URL = ''https://example.com'', Host = ''example.com'',
    CreatedAt = \<lparr>c_year = 2024, c_month = 1, c_day = 2, c_hour = 3, c_minute = 4, c_second = 5, c_offset = 0\<rparr>\<rparr>"
  by (simp add: example_target_def scanTarget_def example_row_def parseTime_def rfc3339_def civil_parse_def
      parse_zone_def digit_val_def days_in_def leap_def)

lemma example_fetch:
  "scheduleChecks_fetch rfc3339 example_db no_faults =
     Inr ([example_target], Some \<lparr>CursorCreatedAt = CreatedAt example_target, CursorID = ''t_1''\<rparr>)"
  by (simp add: scheduleChecks_fetch_def GetTargets_def select_targets_def no_faults_def example_db_def
      sql_limit_def example_target_def rfc3339_def civil_IsZero_def civil_zero_def scanTarget_def example_row_def)

lemma example_step1: "step rfc3339 example_checker example_started"
  unfolding example_started_def step_def by (simp add: goroutine_step.call_Start example_checker_def)

lemma example_step2: "step rfc3339 example_started example_ticking"
  unfolding step_def using goroutine_step.sched_init[of example_started "[]" "[]" rfc3339]
  by (simp add: example_ticking_def example_started_def example_checker_def Start_def)

lemmas example_states = example_probing_def example_waiting_def example_spawned_def example_added_def
  example_admitted_def example_pass_def example_ticking_def example_started_def example_checker_def Start_def

lemma example_step3: "step rfc3339 example_ticking example_pass"
  unfolding step_def
  using goroutine_step.sched_tick[where s=example_ticking and as="[]" and bs="[]" and L=rfc3339
          and flt=no_faults and ts="[example_target]"] example_fetch
  by (simp add: example_states)

lemma example_step4: "step rfc3339 example_pass example_admitted"
  unfolding step_def
  using goroutine_step.pass_admit[where s=example_pass and as="[]" and bs="[]" and L=rfc3339
          and t=example_target and ts="[]"]
  by (simp add: example_states)

lemma example_step5: "step rfc3339 example_admitted example_added"
  unfolding step_def
  using goroutine_step.pass_add[where s=example_admitted and as="[]" and bs="[]" and L=rfc3339
          and t=example_target and ts="[]"]
  by (simp add: example_states)

lemma example_step6: "step rfc3339 example_added example_spawned"
  unfolding step_def
  using goroutine_step.pass_go[where s=example_added and as="[]" and bs="[]" and L=rfc3339
          and t=example_target and ts="[]"]
  by (simp add: example_states)

lemma example_step7: "step rfc3339 example_spawned example_waiting"
  unfolding step_def
  using goroutine_step.task_lookup[where s=example_spawned and cs="[]" and ds="[]" and L=rfc3339
          and t=example_target]
  by (simp add: example_states example_target_eq)

lemma example_step8: "step rfc3339 example_waiting example_probing"
  unfolding step_def
  using goroutine_step.task_host_acquire[where s=example_waiting and cs="[]" and ds="[]" and L=rfc3339
          and t=example_target and n=0]
  by (simp add: example_states example_target_eq hostCap_def)

lemma example_run: "reaches rfc3339 example_checker example_probing"
  by (intro reaches_step[OF _ example_step8] reaches_step[OF _ example_step7] reaches_step[OF _ example_step6]
      reaches_step[OF _ example_step5] reaches_step[OF _ example_step4] reaches_step[OF _ example_step3]
      reaches_step[OF _ example_step2] reaches_step[OF _ example_step1] reaches_init)

lemma example_new: "NewChecker example_db 15000000000 5000000000 10000000000 1 = Some example_checker"
  by (simp add: NewChecker_def example_checker_def)


subsection \<open>The limiters\<close>

lemma global_inv_step: "goroutine_step L s s' \<Longrightarrow> global_inv s \<Longrightarrow> global_inv s'"
  by (induction rule: goroutine_step.induct) (auto simp: global_inv_def measures calls)

lemma wg_inv_step: "goroutine_step L s s' \<Longrightarrow> wg_inv s \<Longrightarrow> wg_inv s'"
  by (induction rule: goroutine_step.induct) (auto simp: wg_inv_def measures calls)

lemma host_inv_step: "goroutine_step L s s' \<Longrightarrow> host_inv s h \<Longrightarrow> host_inv s' h"
  by (induction rule: goroutine_step.induct)
     (auto simp: host_inv_def measures calls hostCap_def split: option.splits if_splits)

lemma config_step: "goroutine_step L s s' \<Longrightarrow> maxConcurrency s' = maxConcurrency s"
  by (induction rule: goroutine_step.induct) (auto simp: calls)

lemma NewChecker_inv:
  "NewChecker st interval timeout grace G = Some c \<Longrightarrow>
     global_inv c \<and> wg_inv c \<and> host_inv c h \<and> maxConcurrency c = G \<and> hostSemaphores c h = None"
  by (auto simp: NewChecker_def global_inv_def wg_inv_def host_inv_def measures split: if_splits)

lemma reaches_inv:
  "reaches L c s \<Longrightarrow> global_inv c \<and> wg_inv c \<and> host_inv c h \<Longrightarrow>
     global_inv s \<and> wg_inv s \<and> host_inv s h \<and> maxConcurrency s = maxConcurrency c"
  by (induction rule: reaches.induct)
     (auto simp: step_def global_inv_step wg_inv_step host_inv_step config_step)

lemma release_only_by_task:
  "goroutine_step L s s' \<Longrightarrow> workers s' < workers s \<Longrightarrow>
     \<exists>cs t ds. tasks s = cs @ Task t ReleaseGlobal # ds \<and> tasks s' = cs @ Task t WgDone # ds"
  by (induction rule: goroutine_step.induct) (auto simp: calls)

lemma started_only_with_slot:
  "goroutine_step L s s' \<Longrightarrow> length (tasks s) < length (tasks s') \<Longrightarrow>
     \<exists>as t ts bs. scheds s = as @ PassGo t ts # bs \<and> tasks s' = tasks s @ [Task t AcquireHostLock]"
  by (induction rule: goroutine_step.induct) (auto simp: calls)

text \<open>
  Claim C2. For every configured global cap \<open>G\<close>, in every state the checker can reach the
  number of \<^verbatim>\<open>checkTarget\<close> goroutines that hold a global slot is at most \<open>G\<close>: it is,
  with the slots taken for goroutines not yet started, the number of elements of
  \<^verbatim>\<open>c.workers\<close>, which never exceeds \<open>G\<close>. A goroutine is started only for a slot the
  scheduler has already taken (so the slot is held before the probe starts), and an
  element leaves \<^verbatim>\<open>c.workers\<close> only by the deferred receive of a goroutine that has
  finished its work, whether the probe succeeded or failed.
\<close>

theorem global_cap_never_exceeded:
  assumes "NewChecker st interval timeout grace G = Some c" and "reaches L c s"
  shows "int (global_holders s) \<le> G
       \<and> workers s = global_holders s + slots_taken s
       \<and> int (workers s) \<le> G
       \<and> (\<forall>s'. step L s s' \<longrightarrow> length (tasks s) < length (tasks s') \<longrightarrow>
            (\<exists>as t ts bs. scheds s = as @ PassGo t ts # bs
                \<and> tasks s' = tasks s @ [Task t AcquireHostLock]))
       \<and> (\<forall>s'. step L s s' \<longrightarrow> workers s' < workers s \<longrightarrow>
            (\<exists>cs t ds. tasks s = cs @ Task t ReleaseGlobal # ds
                \<and> tasks s' = cs @ Task t WgDone # ds))"
proof -
  from NewChecker_inv[OF assms(1)] reaches_inv[OF assms(2)]
  have "global_inv s" and "maxConcurrency s = G"
    by auto
  then have a: "int (global_holders s) \<le> G \<and> workers s = global_holders s + slots_taken s
            \<and> int (workers s) \<le> G"
    by (auto simp: global_inv_def)
  have b: "\<forall>s'. step L s s' \<longrightarrow> length (tasks s) < length (tasks s') \<longrightarrow>
            (\<exists>as t ts bs. scheds s = as @ PassGo t ts # bs
                \<and> tasks s' = tasks s @ [Task t AcquireHostLock])"
    unfolding step_def using started_only_with_slot by blast
  have c: "\<forall>s'. step L s s' \<longrightarrow> workers s' < workers s \<longrightarrow>
            (\<exists>cs t ds. tasks s = cs @ Task t ReleaseGlobal # ds
                \<and> tasks s' = cs @ Task t WgDone # ds)"
    unfolding step_def using release_only_by_task by blast
  from a b c show ?thesis by blast
qed

theorem global_cap_witness:
  "NewChecker example_db 15000000000 5000000000 10000000000 1 = Some example_checker
   \<and> reaches rfc3339 example_checker example_probing
   \<and> global_holders example_probing = 1
   \<and> int (global_holders example_probing) \<le> 1
   \<and> workers example_probing = 1"
  using global_cap_never_exceeded[OF example_new example_run] example_new example_run
  by (simp add: measures example_states example_target_eq)

lemma semaphore_kept:
  "goroutine_step L s s' \<Longrightarrow> hostSemaphores s h \<noteq> None \<Longrightarrow> hostSemaphores s' h \<noteq> None"
  by (induction rule: goroutine_step.induct) (auto simp: calls split: option.splits)

lemma semaphore_created_lazily:
  "goroutine_step L s s' \<Longrightarrow> hostSemaphores s h = None \<Longrightarrow> hostSemaphores s' h \<noteq> None \<Longrightarrow>
     hostSemaphores s' h = Some 0 \<and>
     (\<exists>cs t ds. tasks s = cs @ Task t AcquireHostLock # ds \<and> Host t = h)"
  by (induction rule: goroutine_step.induct) (auto simp: calls split: option.splits if_splits)

text \<open>
  Claim C3. For every host \<open>h\<close> and whatever the global cap, in every state the checker
  can reach at most 2 goroutines hold a slot of \<open>h\<close>, and their number is the number of
  elements of the semaphore of \<open>h\<close>. The map of semaphores is empty at first; the entry
  of \<open>h\<close> is created by a goroutine for a target of \<open>h\<close> at its lookup, and an entry
  that exists is never removed.
\<close>

theorem host_cap_never_exceeded:
  assumes "NewChecker st interval timeout grace G = Some c" and "reaches L c s"
  shows "host_holders s h \<le> 2
       \<and> (case hostSemaphores s h of None \<Rightarrow> host_holders s h = 0
           | Some n \<Rightarrow> n = host_holders s h)
       \<and> hostSemaphores c h = None
       \<and> (\<forall>s'. step L s s' \<longrightarrow> hostSemaphores s h = None \<longrightarrow> hostSemaphores s' h \<noteq> None \<longrightarrow>
            (\<exists>cs t ds. tasks s = cs @ Task t AcquireHostLock # ds \<and> Host t = h))
       \<and> (\<forall>s'. step L s s' \<longrightarrow> hostSemaphores s h \<noteq> None \<longrightarrow> hostSemaphores s' h \<noteq> None)"
proof -
  from NewChecker_inv[OF assms(1), of h] reaches_inv[OF assms(2), of h]
  have inv: "host_inv s h" and init: "hostSemaphores c h = None"
    by auto
  from inv have "host_holders s h \<le> 2"
    and "case hostSemaphores s h of None \<Rightarrow> host_holders s h = 0 | Some n \<Rightarrow> n = host_holders s h"
    by (auto simp: host_inv_def hostCap_def split: option.splits)
  then have a: "host_holders s h \<le> 2
       \<and> (case hostSemaphores s h of None \<Rightarrow> host_holders s h = 0
           | Some n \<Rightarrow> n = host_holders s h)"
    by simp
  have b: "\<forall>s'. step L s s' \<longrightarrow> hostSemaphores s h = None \<longrightarrow> hostSemaphores s' h \<noteq> None \<longrightarrow>
            (\<exists>cs t ds. tasks s = cs @ Task t AcquireHostLock # ds \<and> Host t = h)"
    unfolding step_def using semaphore_created_lazily[of L s _ h] by blast
  have c: "\<forall>s'. step L s s' \<longrightarrow> hostSemaphores s h \<noteq> None \<longrightarrow> hostSemaphores s' h \<noteq> None"
    unfolding step_def using semaphore_kept[of L s _ h] by blast
  from a init b c show ?thesis by blast
qed

theorem host_cap_witness:
  "NewChecker example_db 15000000000 5000000000 10000000000 1 = Some example_checker
   \<and> reaches rfc3339 example_checker example_probing
   \<and> host_holders example_probing ''example.com'' = 1
   \<and> host_holders example_probing ''example.com'' \<le> 2
   \<and> hostSemaphores example_probing ''example.com'' = Some 1"
  using host_cap_never_exceeded[OF example_new example_run, of "''example.com''"] example_new example_run
  by (simp add: measures example_states example_target_eq)

subsection \<open>Admission\<close>

lemma pass_select_step:
  "goroutine_step L s s' \<Longrightarrow> i < length (scheds s) \<Longrightarrow> scheds s ! i = PassSelect (t # ts) \<Longrightarrow>
     scheds s' ! i = PassSelect (t # ts)
     \<or> (scheds s' ! i = PassAdd t ts \<and>
          (int (workers s) < maxConcurrency s \<and> workers s' = workers s + 1
           \<or> maxConcurrency s = 0 \<and> (\<exists>cs t' ds. tasks s = cs @ Task t' ReleaseGlobal # ds)))
     \<or> (scheds s' ! i = SchedSelect \<and> cancelled s)"
  by (induction rule: goroutine_step.induct) (auto simp: calls nth_append nth_Cons' split: if_splits)

lemma pass_add_step:
  "goroutine_step L s s' \<Longrightarrow> i < length (scheds s) \<Longrightarrow> scheds s ! i = PassAdd t ts \<Longrightarrow>
     scheds s' ! i = PassAdd t ts \<or> scheds s' ! i = PassGo t ts"
  by (induction rule: goroutine_step.induct) (auto simp: calls nth_append nth_Cons' split: if_splits)

lemma pass_go_step:
  "goroutine_step L s s' \<Longrightarrow> i < length (scheds s) \<Longrightarrow> scheds s ! i = PassGo t ts \<Longrightarrow>
     scheds s' ! i = PassGo t ts
     \<or> (scheds s' ! i = PassSelect ts \<and> tasks s' = tasks s @ [Task t AcquireHostLock])"
  by (induction rule: goroutine_step.induct) (auto simp: calls nth_append nth_Cons' split: if_splits)

lemma no_receiver_at_cap_zero:
  "global_inv s \<Longrightarrow> maxConcurrency s = 0 \<Longrightarrow> tasks s \<noteq> cs @ Task t' ReleaseGlobal # ds"
  by (auto simp: global_inv_def measures)

text \<open>
  Claim C4. A scheduler that is in a pass, waiting to admit the target \<open>t\<close> with the
  targets \<open>ts\<close> still to come, is after any step of the system still waiting for that
  same target, or has taken a global slot for it (there was room in \<^verbatim>\<open>c.workers\<close>), or
  has abandoned the pass because the context is cancelled. While the limiter is
  saturated and the context is not cancelled it stays where it is: the target is not
  dropped. Once the slot is taken the only things the scheduler does next are
  \<^verbatim>\<open>c.wg.Add(1)\<close> and the start of the goroutine for \<open>t\<close>, after which it goes on
  with \<open>ts\<close>.
\<close>

theorem admission_blocks_never_drops:
  assumes "NewChecker st interval timeout grace G = Some c" and "reaches L c s"
    and "step L s s'" and "i < length (scheds s)"
  shows "(scheds s ! i = PassSelect (t # ts) \<longrightarrow>
            (scheds s' ! i = PassSelect (t # ts)
             \<or> (scheds s' ! i = PassAdd t ts \<and> int (workers s) < G \<and> workers s' = workers s + 1)
             \<or> (scheds s' ! i = SchedSelect \<and> cancelled s))
            \<and> (int (workers s) = G \<and> \<not> cancelled s \<longrightarrow> scheds s' ! i = PassSelect (t # ts)))
       \<and> (scheds s ! i = PassAdd t ts \<longrightarrow>
            scheds s' ! i = PassAdd t ts \<or> scheds s' ! i = PassGo t ts)
       \<and> (scheds s ! i = PassGo t ts \<longrightarrow>
            scheds s' ! i = PassGo t ts
            \<or> (scheds s' ! i = PassSelect ts \<and> tasks s' = tasks s @ [Task t AcquireHostLock]))"
proof -
  from NewChecker_inv[OF assms(1)] reaches_inv[OF assms(2)]
  have inv: "global_inv s" and cap: "maxConcurrency s = G"
    by auto
  from assms(3) have gs: "goroutine_step L s s'"
    by (simp add: step_def)
  have a: "scheds s ! i = PassSelect (t # ts) \<longrightarrow>
            (scheds s' ! i = PassSelect (t # ts)
             \<or> (scheds s' ! i = PassAdd t ts \<and> int (workers s) < G \<and> workers s' = workers s + 1)
             \<or> (scheds s' ! i = SchedSelect \<and> cancelled s))"
    using pass_select_step[OF gs assms(4), of t ts] no_receiver_at_cap_zero[OF inv] cap
    by blast
  then have b: "scheds s ! i = PassSelect (t # ts) \<longrightarrow>
            int (workers s) = G \<and> \<not> cancelled s \<longrightarrow> scheds s' ! i = PassSelect (t # ts)"
    by auto
  from a b pass_add_step[OF gs assms(4), of t ts] pass_go_step[OF gs assms(4), of t ts]
  show ?thesis by blast
qed

lemma example_run_pass: "reaches rfc3339 example_checker example_pass"
  by (intro reaches_step[OF _ example_step3]
      reaches_step[OF _ example_step2] reaches_step[OF _ example_step1] reaches_init)

theorem admission_witness:
  "NewChecker example_db 15000000000 5000000000 10000000000 1 = Some example_checker
   \<and> reaches rfc3339 example_checker example_pass
   \<and> step rfc3339 example_pass example_admitted
   \<and> scheds example_pass ! 0 = PassSelect [example_target]
   \<and> scheds example_admitted ! 0 = PassAdd example_target []
   \<and> int (workers example_pass) < 1
   \<and> workers example_admitted = workers example_pass + 1"
  using admission_blocks_never_drops[OF example_new example_run_pass example_step4, of 0 example_target "[]"]
    example_new example_run_pass example_step4
  by (simp add: example_states)

subsection \<open>Shutdown\<close>

lemma shutdown_return_step:
  "goroutine_step L s s' \<Longrightarrow> k < length (shutdowns s) \<Longrightarrow>
     \<not> sh_returned (shutdowns s ! k) \<Longrightarrow> sh_returned (shutdowns s' ! k) \<Longrightarrow>
     \<exists>sc. select_ready sc (shutdowns s ! k) \<and> stdout s' = stdout s @ [snd (Shutdown_select sc)]"
  by (induction rule: goroutine_step.induct) (auto simp: calls nth_append nth_Cons' split: if_splits)

lemma shutdown_done_step:
  "goroutine_step L s s' \<Longrightarrow> k < length (shutdowns s) \<Longrightarrow>
     \<not> sh_done (shutdowns s ! k) \<Longrightarrow> sh_done (shutdowns s' ! k) \<Longrightarrow> wg s = 0"
  by (induction rule: goroutine_step.induct) (auto simp: calls nth_append nth_Cons' split: if_splits)

lemma outstanding_zero:
  "outstanding s = 0 \<Longrightarrow>
     (\<forall>t \<in> set (tasks s). task_pc t = Exited) \<and> (\<forall>p \<in> set (scheds s). p = SchedExited)"
  by (auto simp: outstanding_def filter_empty_conv)

text \<open>
  Claim C5, as stated, fails: \<^verbatim>\<open>Shutdown\<close> has no result, so nothing its caller receives
  tells a clean shutdown from a forced one, and the caller \<^verbatim>\<open>waitForShutdown\<close> logs
  the same lines in both cases.
\<close>

theorem Shutdown_returns_no_status_counterexample:
  "\<not> (\<exists>f. f (fst (Shutdown_select DoneClosed)) = True
           \<and> f (fst (Shutdown_select GraceElapsed)) = False)
   \<and> waitForShutdown GraceElapsed = waitForShutdown DoneClosed"
  by (simp add: waitForShutdown_def)

text \<open>
  Claim C5, amended. \<^verbatim>\<open>Shutdown\<close> cancels the context, and a further call changes
  nothing of the checker but to register one more waiting call. A call returns only
  when its \<^verbatim>\<open>done\<close> channel is closed or its grace timer has fired; \<^verbatim>\<open>done\<close> is closed
  only when the wait group's counter is zero, and then every \<^verbatim>\<open>checkTarget\<close> goroutine
  and every scheduler has exited. The call returns no value: which of the two happened
  is printed on standard output ("checker shut down gracefully" or "shutdown timed
  out, forcing exit").
\<close>

theorem Shutdown_waits_and_prints:
  assumes "NewChecker st interval timeout grace G = Some c" and "reaches L c s"
    and "step L s s'" and "k < length (shutdowns s)"
  shows "cancelled (Shutdown_call s)
       \<and> Shutdown_call (Shutdown_call s)
           = (Shutdown_call s)\<lparr>shutdowns := shutdowns (Shutdown_call s)
                @ [\<lparr>sh_done = False, sh_timer = False, sh_returned = False\<rparr>]\<rparr>
       \<and> (\<not> sh_returned (shutdowns s ! k) \<and> sh_returned (shutdowns s' ! k) \<longrightarrow>
            (sh_done (shutdowns s ! k)
               \<and> stdout s' = stdout s @ [''checker shut down gracefully'']
             \<or> sh_timer (shutdowns s ! k)
               \<and> stdout s' = stdout s @ [''shutdown timed out, forcing exit'']))
       \<and> (\<not> sh_done (shutdowns s ! k) \<and> sh_done (shutdowns s' ! k) \<longrightarrow>
            wg s = 0 \<and> (\<forall>t \<in> set (tasks s). task_pc t = Exited)
            \<and> (\<forall>p \<in> set (scheds s). p = SchedExited))
       \<and> fst (Shutdown_select DoneClosed) = fst (Shutdown_select GraceElapsed)"
proof -
  from NewChecker_inv[OF assms(1)] reaches_inv[OF assms(2)]
  have inv: "wg_inv s"
    by auto
  from assms(3) have gs: "goroutine_step L s s'"
    by (simp add: step_def)
  have a: "cancelled (Shutdown_call s)
       \<and> Shutdown_call (Shutdown_call s)
           = (Shutdown_call s)\<lparr>shutdowns := shutdowns (Shutdown_call s)
                @ [\<lparr>sh_done = False, sh_timer = False, sh_returned = False\<rparr>]\<rparr>"
    by (simp add: Shutdown_call_def)
  have b: "\<not> sh_returned (shutdowns s ! k) \<and> sh_returned (shutdowns s' ! k) \<longrightarrow>
            (sh_done (shutdowns s ! k)
               \<and> stdout s' = stdout s @ [''checker shut down gracefully'']
             \<or> sh_timer (shutdowns s ! k)
               \<and> stdout s' = stdout s @ [''shutdown timed out, forcing exit''])"
  proof
    assume "\<not> sh_returned (shutdowns s ! k) \<and> sh_returned (shutdowns s' ! k)"
    with shutdown_return_step[OF gs assms(4)]
    obtain sc where "select_ready sc (shutdowns s ! k)"
      and "stdout s' = stdout s @ [snd (Shutdown_select sc)]"
      by blast
    then show "sh_done (shutdowns s ! k)
               \<and> stdout s' = stdout s @ [''checker shut down gracefully'']
             \<or> sh_timer (shutdowns s ! k)
               \<and> stdout s' = stdout s @ [''shutdown timed out, forcing exit'']"
      by (cases sc) (simp_all add: select_ready_def Shutdown_select_def)
  qed
  have c: "\<not> sh_done (shutdowns s ! k) \<and> sh_done (shutdowns s' ! k) \<longrightarrow>
            wg s = 0 \<and> (\<forall>t \<in> set (tasks s). task_pc t = Exited)
            \<and> (\<forall>p \<in> set (scheds s). p = SchedExited)"
  proof
    assume "\<not> sh_done (shutdowns s ! k) \<and> sh_done (shutdowns s' ! k)"
    with shutdown_done_step[OF gs assms(4)] have z: "wg s = 0"
      by blast
    with inv have "outstanding s = 0"
      by (simp add: wg_inv_def)
    with z outstanding_zero show "wg s = 0 \<and> (\<forall>t \<in> set (tasks s). task_pc t = Exited)
            \<and> (\<forall>p \<in> set (scheds s). p = SchedExited)"
      by blast
  qed
  have d: "fst (Shutdown_select DoneClosed) = fst (Shutdown_select GraceElapsed)"
    by simp
  from a b c d show ?thesis
    by blast
qed

lemma example_shutdown_step1: "step rfc3339 example_checker example_shutdown"
  unfolding example_shutdown_def step_def
  by (simp add: goroutine_step.call_Shutdown example_checker_def)

lemma example_shutdown_step2: "step rfc3339 example_shutdown example_done"
  unfolding step_def
  using goroutine_step.shutdown_waiter[where s=example_shutdown and es="[]" and fs="[]"
          and L=rfc3339 and sh="\<lparr>sh_done = False, sh_timer = False, sh_returned = False\<rparr>"]
  by (simp add: example_done_def example_shutdown_def example_checker_def Shutdown_call_def)

lemma example_shutdown_step3: "step rfc3339 example_done example_returned"
  unfolding step_def
  using goroutine_step.shutdown_return[where s=example_done and es="[]" and fs="[]"
          and L=rfc3339 and sh="\<lparr>sh_done = True, sh_timer = False, sh_returned = False\<rparr>"
          and sc=DoneClosed]
  by (simp add: example_returned_def example_done_def example_shutdown_def example_checker_def
        Shutdown_call_def select_ready_def Shutdown_select_def)

lemma example_shutdown_run: "reaches rfc3339 example_checker example_done"
  by (intro reaches_step[OF _ example_shutdown_step2] reaches_step[OF _ example_shutdown_step1]
        reaches_init)

theorem Shutdown_witness:
  "NewChecker example_db 15000000000 5000000000 10000000000 1 = Some example_checker
   \<and> reaches rfc3339 example_checker example_done
   \<and> step rfc3339 example_done example_returned
   \<and> \<not> sh_returned (shutdowns example_done ! 0)
   \<and> sh_returned (shutdowns example_returned ! 0)
   \<and> sh_done (shutdowns example_done ! 0)
   \<and> stdout example_returned = stdout example_done @ [''checker shut down gracefully'']"
  using Shutdown_waits_and_prints[OF example_new example_shutdown_run example_shutdown_step3, of 0]
    example_new example_shutdown_run example_shutdown_step3
  by (simp add: example_returned_def example_done_def example_shutdown_def example_checker_def
        Shutdown_call_def print_line_def)

subsection \<open>Start\<close>

text \<open>
  Claim C6, as stated, fails: a second call of \<^verbatim>\<open>Start\<close> does not leave the checker as
  the first call left it; it adds a second scheduler goroutine.
\<close>

theorem Start_twice_counterexample:
  "Start (Start example_checker) \<noteq> Start example_checker
   \<and> length (scheds (Start example_checker)) = 1
   \<and> length (scheds (Start (Start example_checker))) = 2"
  by (simp add: Start_def example_checker_def)

text \<open>
  Claim C6, amended. Every call of \<^verbatim>\<open>Start\<close> adds one to the wait group and starts one
  more scheduler goroutine: after two calls there are two scheduler loops more than
  before, and the state differs from the state after one call.
\<close>

theorem Start_adds_a_scheduler:
  "scheds (Start s) = scheds s @ [SchedInit]
   \<and> wg (Start s) = wg s + 1
   \<and> length (scheds (Start (Start s))) = length (scheds s) + 2
   \<and> wg (Start (Start s)) = wg s + 2
   \<and> Start (Start s) \<noteq> Start s"
proof -
  have "scheds (Start (Start s)) \<noteq> scheds (Start s)"
    by (simp add: Start_def)
  then have "Start (Start s) \<noteq> Start s"
    by metis
  then show ?thesis
    by (simp add: Start_def)
qed

theorem Start_adds_a_scheduler_witness:
  "scheds (Start example_checker) = [SchedInit]
   \<and> scheds (Start (Start example_checker)) = [SchedInit, SchedInit]
   \<and> wg (Start (Start example_checker)) = 2"
  using Start_adds_a_scheduler[of example_checker] Start_adds_a_scheduler[of "Start example_checker"]
  by (simp add: example_checker_def)

subsection \<open>The store\<close>

lemma find_row:
  "u \<in> row_url ` set rows \<Longrightarrow>
     \<exists>r. find (\<lambda>r. row_url r = u) rows = Some r \<and> r \<in> set rows \<and> row_url r = u"
  by (induction rows) auto

lemma Upsert_keeps_rows:
  "\<exists>new. targets (snd (UpsertTargetByURL L db flt uuid now u h)) = targets db @ new"
  by (auto simp: UpsertTargetByURL_def insert_target_def Let_def split: option.splits sum.splits)

text \<open>
  Claim C7. When the canonical URL is already registered, \<open>UpsertTargetByURL\<close> leaves the
  database as it was and, unless the query itself fails with a driver error, returns the
  stored target of that URL with \<^verbatim>\<open>created = false\<close>. No operation on the store that
  the checker or the registration uses changes or removes a stored target:
  \<open>UpsertTargetByURL\<close> at most appends a row, \<open>InsertCheckResult\<close> leaves the targets as
  they are, and \<open>GetTargets\<close> only reads.
\<close>

theorem UpsertTargetByURL_existing:
  assumes "canonicalURL \<in> row_url ` set (targets db)"
  shows "snd (UpsertTargetByURL L db flt uuid now canonicalURL host) = db
       \<and> (query_err flt = None \<longrightarrow>
            (\<exists>r \<in> set (targets db). row_url r = canonicalURL
               \<and> fst (UpsertTargetByURL L db flt uuid now canonicalURL host)
                   = Inr (scanTarget L r, False)))
       \<and> (\<forall>e. query_err flt = Some e \<longrightarrow>
            fst (UpsertTargetByURL L db flt uuid now canonicalURL host)
              = Inl (''query target: '' @ e))
       \<and> (\<exists>new. targets (snd (UpsertTargetByURL L db flt' uuid' now' url' host'))
                   = targets db @ new)
       \<and> targets (snd (InsertCheckResult L db flt' result)) = targets db"
proof -
  from find_row[OF assms] obtain r where
    r: "find (\<lambda>r. row_url r = canonicalURL) (targets db) = Some r"
       "r \<in> set (targets db)" "row_url r = canonicalURL"
    by blast
  have a: "snd (UpsertTargetByURL L db flt uuid now canonicalURL host) = db"
    using r(1) by (simp add: UpsertTargetByURL_def split: option.splits)
  have b: "query_err flt = None \<longrightarrow>
            (\<exists>r \<in> set (targets db). row_url r = canonicalURL
               \<and> fst (UpsertTargetByURL L db flt uuid now canonicalURL host)
                   = Inr (scanTarget L r, False))"
    using r by (auto simp: UpsertTargetByURL_def)
  have c: "\<forall>e. query_err flt = Some e \<longrightarrow>
            fst (UpsertTargetByURL L db flt uuid now canonicalURL host)
              = Inl (''query target: '' @ e)"
    by (simp add: UpsertTargetByURL_def)
  have d: "targets (snd (InsertCheckResult L db flt' result)) = targets db"
    by (simp add: InsertCheckResult_def split: option.splits)
  from a b c d Upsert_keeps_rows[of L db flt' uuid' now' url' host'] show ?thesis
    by blast
qed

theorem UpsertTargetByURL_existing_witness:
  "''https://example.com'' \<in> row_url ` set (targets example_db)
   \<and> UpsertTargetByURL rfc3339 example_db no_faults ''1f0c'' civil_zero
        ''https://example.com'' ''example.com''
      = (Inr (example_target, False), example_db)"
  using UpsertTargetByURL_existing[of "''https://example.com''" example_db rfc3339 no_faults
          "''1f0c''" civil_zero "''example.com''"]
  by (auto simp: example_db_def example_row_def no_faults_def example_target_def prod_eq_iff)





subsection \<open>Page tokens\<close>

lemma b64_val_char: "i < 64 \<Longrightarrow> b64_val (b64_char i) = Some i"
  by (auto simp: b64_val_def b64_char_def Let_def)

lemma b64_char_not_pad: "i < 64 \<Longrightarrow> b64_char i \<noteq> CHR ''=''"
  using b64_val_char[of i] by (auto simp: b64_val_def)

lemma b64_char_not_nl: "i < 64 \<Longrightarrow> b64_char i \<noteq> CHR 0x0A \<and> b64_char i \<noteq> CHR 0x0D"
  using b64_val_char[of i] by (auto simp: b64_val_def)




lemma of_char_bound: "(of_char ch :: nat) < 256"
  by simp

lemma quantum_bounds:
  fixes x y z :: nat
  assumes "x < 256" "y < 256" "z < 256"
  shows "x div 4 < 64" "(x mod 4) * 16 + y div 16 < 64" "(y mod 16) * 4 + z div 64 < 64"
        "z mod 64 < 64" "(x mod 4) * 16 < 64" "(y mod 16) * 4 < 64"
  using assms by simp_all

lemmas char_bounds = quantum_bounds[OF of_char_bound of_char_bound of_char_bound]

lemma byte_parts:
  fixes y :: nat
  assumes "y < 256"
  shows "y div 16 div 16 = 0" "y div 64 div 4 = 0" "y div 16 mod 16 = y div 16"
        "y div 64 mod 4 = y div 64"
  using assms by simp_all

lemmas char_parts = byte_parts[OF of_char_bound]

lemma decode_encode: "decode_quanta (EncodeToString s) = Some s"
  by (induction s rule: EncodeToString.induct)
     (simp_all add: Let_def b64_val_char b64_char_not_pad char_bounds char_parts)

lemma encode_no_newline:
  "ch \<in> set (EncodeToString s) \<Longrightarrow> ch \<noteq> CHR 0x0A \<and> ch \<noteq> CHR 0x0D"
  by (induction s arbitrary: ch rule: EncodeToString.induct)
     (auto simp: Let_def b64_char_not_nl char_bounds)

lemma DecodeString_EncodeToString: "DecodeString (EncodeToString s) = Some s"
proof -
  have "filter (\<lambda>ch. ch \<noteq> CHR 0x0A \<and> ch \<noteq> CHR 0x0D) (EncodeToString s) = EncodeToString s"
    using encode_no_newline by (simp add: filter_id_conv)
  then show ?thesis
    by (simp add: DecodeString_def decode_encode)
qed

lemma EncodeToString_empty: "EncodeToString s = [] \<longleftrightarrow> s = []"
  by (induction s rule: EncodeToString.induct) (simp_all add: Let_def)

lemma split_on_once:
  "sep \<notin> set a \<Longrightarrow> sep \<notin> set b \<Longrightarrow> split_on sep (a @ sep # b) = [a, b]"
proof (induction a)
  case Nil
  have "split_on sep b = [b]" using Nil(2)
    by (induction b) auto
  then show ?case by simp
next
  case (Cons x a)
  then show ?case by auto
qed

lemma split_on_length: "length (split_on sep s) = Suc (length (filter (\<lambda>ch. ch = sep) s))"
  by (induction s) (auto split: list.splits)


text \<open>
  Claim C10, as stated, fails: it is about every target id, and an id that contains the
  separator does not come back. The token built for the id \<^verbatim>\<open>a|b\<close> decodes to three
  parts, and \<open>parseCursorToken\<close> answers the zero time and the empty id.
\<close>

theorem cursor_token_id_with_bar_counterexample:
  "parseCursorToken rfc3339 (buildCursorToken rfc3339 (CreatedAt example_target) ''a|b'')
     = (civil_zero, [])
   \<and> parseCursorToken rfc3339 (buildCursorToken rfc3339 (CreatedAt example_target) ''a|b'')
     \<noteq> (CreatedAt example_target, ''a|b'')"
proof -
  have "parseCursorToken rfc3339 (buildCursorToken rfc3339 (CreatedAt example_target) ''a|b'')
     = (civil_zero, [])"
    by (simp add: parseCursorToken_def buildCursorToken_def DecodeString_EncodeToString
          EncodeToString_empty split_on_length rfc3339_def)
  then show ?thesis by simp
qed

text \<open>
  Claim C10, amended. For every timestamp \<open>t\<close> that the RFC 3339 text reproduces
  (parsing the formatted \<open>t\<close> gives \<open>t\<close> back, and the text has no \<^verbatim>\<open>|\<close>) and every id
  \<open>s\<close> without \<^verbatim>\<open>|\<close>, \<open>parseCursorToken (buildCursorToken t s) = (t, s)\<close>. For the empty
  token and for every malformed token (it is not base64, or it does not decode to
  exactly two parts, or its first part is not a timestamp) \<open>parseCursorToken\<close> returns
  the zero time and the empty id.
\<close>

theorem cursor_token_roundtrip:
  assumes "time_Parse L (time_Format L t) = Some t"
    and "CHR ''|'' \<notin> set (time_Format L t)" and "CHR ''|'' \<notin> set s"
  shows "parseCursorToken L (buildCursorToken L t s) = (t, s)
       \<and> parseCursorToken L [] = (time_zero L, [])
       \<and> (DecodeString token = None \<longrightarrow> parseCursorToken L token = (time_zero L, []))
       \<and> (DecodeString token = Some decoded \<and> length (split_on (CHR ''|'') decoded) \<noteq> 2 \<longrightarrow>
            parseCursorToken L token = (time_zero L, []))
       \<and> (DecodeString token = Some decoded \<and> length (split_on (CHR ''|'') decoded) = 2
            \<and> time_Parse L (split_on (CHR ''|'') decoded ! 0) = None \<longrightarrow>
            parseCursorToken L token = (time_zero L, []))"
proof -
  have a: "parseCursorToken L (buildCursorToken L t s) = (t, s)"
    using assms
    by (simp add: parseCursorToken_def buildCursorToken_def DecodeString_EncodeToString
          EncodeToString_empty split_on_once)
  show ?thesis
    using a by (simp add: parseCursorToken_def)
qed

theorem cursor_token_roundtrip_witness:
  "time_Parse rfc3339 (time_Format rfc3339 (CreatedAt example_target)) = Some (CreatedAt example_target)
   \<and> CHR ''|'' \<notin> set (time_Format rfc3339 (CreatedAt example_target))
   \<and> CHR ''|'' \<notin> set ''t_1''
   \<and> buildCursorToken rfc3339 (CreatedAt example_target) ''t_1'' = ''MjAyNC0wMS0wMlQwMzowNDowNVp8dF8x''
   \<and> parseCursorToken rfc3339 ''MjAyNC0wMS0wMlQwMzowNDowNVp8dF8x'' = (CreatedAt example_target, ''t_1'')"
proof -
  have f: "time_Format rfc3339 (CreatedAt example_target) = ''2024-01-02T03:04:05Z''"
    by code_simp
  have p: "time_Parse rfc3339 ''2024-01-02T03:04:05Z'' = Some (CreatedAt example_target)"
    by (simp add: example_target_eq rfc3339_def civil_parse_def
      parse_zone_def digit_val_def days_in_def leap_def)
  have b: "buildCursorToken rfc3339 (CreatedAt example_target) ''t_1'' = ''MjAyNC0wMS0wMlQwMzowNDowNVp8dF8x''"
    by code_simp
  from cursor_token_roundtrip[of rfc3339 "CreatedAt example_target" "''t_1''"] f p b
  show ?thesis by simp
qed

subsection \<open>Canonicalization\<close>

text \<open>The table of \<^verbatim>\<open>TestCanonicalize\<close> (canonicalize_test.go), on the model.\<close>

lemma TestCanonicalize:
  "Canonicalize net_url ''https://EXAMPLE.com/'' = Inr (''https://example.com'', ''example.com'')"
  "Canonicalize net_url ''http://example.com:80/'' = Inr (''http://example.com'', ''example.com'')"
  "Canonicalize net_url ''https://example.com:443/'' = Inr (''https://example.com'', ''example.com'')"
  "Canonicalize net_url ''https://example.com/path/'' = Inr (''https://example.com/path'', ''example.com'')"
  "Canonicalize net_url ''https://example.com?b=2&a=1'' = Inr (''https://example.com?a=1&b=2'', ''example.com'')"
  by code_simp+

text \<open>
  Claim C9 (\<open>Canonicalize\<close> is idempotent) fails on the code. \<open>normalizePath\<close> removes one
  trailing slash, so a path that ends in two slashes is canonicalized to a URL that
  still ends in a slash, and canonicalizing that URL gives a different one.
\<close>

theorem Canonicalize_twice_differs:
  "Canonicalize net_url ''http://example.com/path//''
     = Inr (''http://example.com/path/'', ''example.com'')
   \<and> Canonicalize net_url ''http://example.com/path/''
     = Inr (''http://example.com/path'', ''example.com'')
   \<and> normalizePath ''/path//'' = ''/path/''
   \<and> normalizePath ''/path/'' = ''/path''"
  by code_simp

end
